theory Spec2Isabelle
  imports Main "HOL-Library.Word"
begin

section \<open>Values, exceptions and the browser platform\<close>

text \<open>
  The client in \<^verbatim>\<open>src/web/static/js/res.js\<close> is JavaScript running on the browser's
  built-ins: \<^verbatim>\<open>TextEncoder\<close>, \<^verbatim>\<open>TextDecoder\<close>, \<^verbatim>\<open>btoa\<close>, \<^verbatim>\<open>atob\<close>, \<^verbatim>\<open>JSON\<close>,
  \<^verbatim>\<open>crypto.subtle\<close>, \<^verbatim>\<open>crypto.getRandomValues\<close> and \<^verbatim>\<open>fetch\<close>. The repository's own
  code (the classes \<^verbatim>\<open>RSA\<close>, \<^verbatim>\<open>Eec\<close>, \<^verbatim>\<open>State\<close> and \<^verbatim>\<open>Res\<close>) is embedded function by
  function; the built-ins it calls are parameters: the deterministic ones are the fields
  of a \<open>platform\<close>, the ones whose outcome differs from call to call (the random source,
  key generation, the network) are the fields of a \<open>world\<close>, one per call.

  An \<^verbatim>\<open>async\<close> function returns a promise; its outcome is a value of \<open>exn + 'a\<close>, with
  \<open>Inl\<close> for a rejection (an exception that leaves the function). Every function also
  returns the list of calls it made to the cryptographic provider and to the network,
  in order.
\<close>

type_synonym byte = "8 word"

text \<open>
  Exceptions. Each \<^verbatim>\<open>throw new Error(...)\<close> of the source has its own constructor (the
  source's messages are partly Chinese; the comments give them in English):
  \<^item> \<open>ChannelMissing\<close>: \<^verbatim>\<open>Res.api.check\<close>, "no valid encrypted channel";
  \<^item> \<open>HttpError status\<close>: \<^verbatim>\<open>if (!res.ok) throw new Error(`HTTP ...: ${res.status}`)\<close>;
  \<^item> \<open>InvalidKeyLength\<close>: "Invalid AES key length. Must be 16, 24, or 32 bytes.";
  \<^item> \<open>KeyGenFailed\<close>, \<open>ExportFailed\<close>, \<open>RsaDecryptFailed\<close>: the errors that \<^verbatim>\<open>RSA.init\<close>,
    \<^verbatim>\<open>RSA.getPublicKey_pem\<close> and \<^verbatim>\<open>RSA.decrypt\<close> rethrow from their handlers;
  \<^item> \<open>PrivateKeyMissing\<close>: "private key not initialised" in \<^verbatim>\<open>RSA.decrypt\<close>;
  \<^item> \<open>TypeError\<close>: reading a property of \<^verbatim>\<open>undefined\<close> or \<^verbatim>\<open>null\<close>;
  \<^item> \<open>Native name\<close>: an exception raised by a built-in of the platform.
\<close>

datatype exn =
    ChannelMissing
  | HttpError int
  | InvalidKeyLength
  | KeyGenFailed
  | ExportFailed
  | RsaDecryptFailed
  | PrivateKeyMissing
  | TypeError
  | Native string

text \<open>
  JavaScript values as they occur in the channel state and in parsed JSON. Numbers are
  the integers of the protocol (status and response codes).
\<close>

datatype jsval =
    JUndefined
  | JNull
  | JBool bool
  | JNum int
  | JStr string
  | JArr "jsval list"
  | JObj "(string \<times> jsval) list"

text \<open>\<^verbatim>\<open>!v\<close> is true exactly when \<open>truthy v\<close> is false.\<close>

fun truthy :: "jsval \<Rightarrow> bool" where
  "truthy JUndefined = False"
| "truthy JNull = False"
| "truthy (JBool b) = b"
| "truthy (JNum n) = (n \<noteq> 0)"
| "truthy (JStr s) = (s \<noteq> [])"
| "truthy (JArr xs) = True"
| "truthy (JObj kvs) = True"

text \<open>
  Property access \<^verbatim>\<open>v.name\<close>, for the names the source reads from parsed JSON
  (\<^verbatim>\<open>data\<close>, \<^verbatim>\<open>iv\<close>, \<^verbatim>\<open>tag\<close>, \<^verbatim>\<open>key\<close>, \<^verbatim>\<open>message\<close>, \<^verbatim>\<open>code\<close>): a TypeError on
  \<^verbatim>\<open>undefined\<close> and \<^verbatim>\<open>null\<close>, the own property of an object, \<^verbatim>\<open>undefined\<close> otherwise.
  (No string, number, boolean or array has a property of one of these names. The list
  of an object holds each name once.)
\<close>

fun get_prop :: "jsval \<Rightarrow> string \<Rightarrow> exn + jsval" where
  "get_prop JUndefined name = Inl TypeError"
| "get_prop JNull name = Inl TypeError"
| "get_prop (JObj kvs) name = Inr (case map_of kvs name of None \<Rightarrow> JUndefined | Some v \<Rightarrow> v)"
| "get_prop v name = Inr JUndefined"

datatype usage = ForEncrypt | ForDecrypt

datatype cryptokey = CryptoKey (raw: "byte list") (usage: usage)

datatype hashalg = SHA256 | SHA512

record keypair =
  publicKey :: nat
  privateKey :: nat

record platform =
  TextEncoder_encode :: "jsval \<Rightarrow> byte list"
  TextDecoder_decode :: "byte list \<Rightarrow> string"
  btoa_bytes :: "byte list \<Rightarrow> string"
  atob_bytes :: "jsval \<Rightarrow> exn + byte list"
  JSON_stringify :: "jsval \<Rightarrow> string"
  JSON_parse :: "string \<Rightarrow> exn + jsval"
  digest :: "hashalg \<Rightarrow> byte list \<Rightarrow> exn + byte list"
  importKey :: "byte list \<Rightarrow> usage \<Rightarrow> exn + cryptokey"
  AES_GCM_encrypt :: "cryptokey \<Rightarrow> byte list \<Rightarrow> byte list \<Rightarrow> exn + byte list"
  AES_GCM_decrypt :: "cryptokey \<Rightarrow> byte list \<Rightarrow> byte list \<Rightarrow> exn + byte list"
  exportKey_spki :: "nat \<Rightarrow> exn + byte list"
  RSA_OAEP_decrypt :: "nat \<Rightarrow> byte list \<Rightarrow> exn + byte list"

text \<open>
  The fields stand for these expressions of the source:
  \<^item> \<open>TextEncoder_encode v\<close>: \<^verbatim>\<open>new TextEncoder().encode(v)\<close> (it converts \<open>v\<close> to a
    string first and never throws on the values above);
  \<^item> \<open>TextDecoder_decode b\<close>: \<^verbatim>\<open>new TextDecoder('utf-8').decode(b)\<close>;
  \<^item> \<open>btoa_bytes b\<close>: \<^verbatim>\<open>btoa(String.fromCharCode(...b))\<close>;
  \<^item> \<open>atob_bytes v\<close>: \<^verbatim>\<open>Uint8Array.from(atob(v), c => c.charCodeAt(0))\<close>;
  \<^item> \<open>digest\<close>, \<open>importKey\<close> (format \<^verbatim>\<open>'raw'\<close>, algorithm \<^verbatim>\<open>'AES-GCM'\<close>),
    \<open>AES_GCM_encrypt key iv data\<close>, \<open>AES_GCM_decrypt key iv data\<close>, \<open>exportKey_spki\<close>
    and \<open>RSA_OAEP_decrypt\<close>: the methods of \<^verbatim>\<open>crypto.subtle\<close>.
  The limits of the engine (memory, the number of arguments a spread call may pass) are
  not modelled.
\<close>

record request =
  url :: string
  http_method :: string
  content_type :: "string option"
  session_user_header :: "string option"
  credentials :: "string option"
  form :: "(string \<times> jsval) list"
  body :: "string option"

record response =
  status :: int
  text_body :: string

text \<open>\<^verbatim>\<open>res.ok\<close>: the status is in the range 200 to 299.\<close>

definition ok :: "response \<Rightarrow> bool" where
  "ok res = (200 \<le> status res \<and> status res \<le> 299)"

record world =
  getRandomValues :: "nat \<Rightarrow> byte list"
  generateKey :: "exn + keypair"
  fetch :: "request \<Rightarrow> exn + response"

datatype call =
    C_importKey "byte list" usage
  | C_getRandomValues nat
  | C_encrypt cryptokey "byte list" "byte list"
  | C_decrypt cryptokey "byte list" "byte list"
  | C_digest hashalg "byte list"
  | C_generateKey
  | C_exportKey nat
  | C_rsa_decrypt nat "byte list"
  | C_fetch request

section \<open>Class Eec\<close>

subsection \<open>Eec.Hash\<close>

text \<open>\<^verbatim>\<open>b.toString(16).padStart(2, '0')\<close> for a byte \<open>b\<close>.\<close>

definition hex_digit :: "nat \<Rightarrow> char" where
  "hex_digit n = ''0123456789abcdef'' ! n"

definition toString16 :: "byte \<Rightarrow> string" where
  "toString16 b =
     (if unat b < 16 then [hex_digit (unat b)]
      else [hex_digit (unat b div 16), hex_digit (unat b mod 16)])"

definition padStart2 :: "string \<Rightarrow> string" where
  "padStart2 s = replicate (2 - length s) (CHR ''0'') @ s"

definition hex_of_bytes :: "byte list \<Rightarrow> string" where
  "hex_of_bytes bs = concat (map (\<lambda>b. padStart2 (toString16 b)) bs)"

text \<open>
  \<^verbatim>\<open>Eec.Hash.sha256(data)\<close>: the hex text of the digest; the handler returns the empty
  string when the digest throws.
\<close>

definition sha256 :: "platform \<Rightarrow> jsval \<Rightarrow> string \<times> call list" where
  "sha256 P data =
     (let dataBuffer = TextEncoder_encode P data in
      case digest P SHA256 dataBuffer of
        Inl e \<Rightarrow> ([], [C_digest SHA256 dataBuffer])
      | Inr hashBuffer \<Rightarrow> (hex_of_bytes hashBuffer, [C_digest SHA256 dataBuffer]))"

definition sha512 :: "platform \<Rightarrow> jsval \<Rightarrow> string \<times> call list" where
  "sha512 P data =
     (let dataBuffer = TextEncoder_encode P data in
      case digest P SHA512 dataBuffer of
        Inl e \<Rightarrow> ([], [C_digest SHA512 dataBuffer])
      | Inr hashBuffer \<Rightarrow> (hex_of_bytes hashBuffer, [C_digest SHA512 dataBuffer]))"

subsection \<open>Eec.Aes.Gcm\<close>

text \<open>\<^verbatim>\<open>[16, 24, 32].includes(keyBytes.length)\<close>\<close>

definition key_length_ok :: "byte list \<Rightarrow> bool" where
  "key_length_ok keyBytes =
     (length keyBytes = 16 \<or> length keyBytes = 24 \<or> length keyBytes = 32)"

text \<open>\<^verbatim>\<open>a.slice(0, -16)\<close> and \<^verbatim>\<open>a.slice(-16)\<close> on a typed array.\<close>

definition slice_0_m16 :: "byte list \<Rightarrow> byte list" where
  "slice_0_m16 a = take (length a - 16) a"

definition slice_m16 :: "byte list \<Rightarrow> byte list" where
  "slice_m16 a = drop (length a - 16) a"

text \<open>
  The part of \<^verbatim>\<open>encryptBytes\<close> and \<^verbatim>\<open>encryptStr\<close> after the key-length check: import
  the key, draw the IV, encrypt, split off the last 16 bytes as the tag.
\<close>

definition encrypt_with :: "platform \<Rightarrow> world \<Rightarrow> byte list \<Rightarrow> byte list \<Rightarrow> (exn + jsval) \<times> call list" where
  "encrypt_with P W keyBytes dataBytes =
     (case importKey P keyBytes ForEncrypt of
        Inl e \<Rightarrow> (Inl e, [C_importKey keyBytes ForEncrypt])
      | Inr cryptoKey \<Rightarrow>
          (let iv = getRandomValues W 12 in
           case AES_GCM_encrypt P cryptoKey iv dataBytes of
             Inl e \<Rightarrow>
               (Inl e, [C_importKey keyBytes ForEncrypt, C_getRandomValues 12,
                        C_encrypt cryptoKey iv dataBytes])
           | Inr encryptedArray \<Rightarrow>
               (let ciphertext = slice_0_m16 encryptedArray;
                    tag = slice_m16 encryptedArray
                in (Inr (JObj [(''iv'', JStr (btoa_bytes P iv)),
                               (''data'', JStr (btoa_bytes P ciphertext)),
                               (''tag'', JStr (btoa_bytes P tag))]),
                    [C_importKey keyBytes ForEncrypt, C_getRandomValues 12,
                     C_encrypt cryptoKey iv dataBytes]))))"

text \<open>The \<^verbatim>\<open>try\<close> block of \<^verbatim>\<open>Eec.Aes.Gcm.encryptStr(data, key)\<close>.\<close>

definition encryptStr_try :: "platform \<Rightarrow> world \<Rightarrow> string \<Rightarrow> jsval \<Rightarrow> (exn + jsval) \<times> call list" where
  "encryptStr_try P W data key =
     (let keyBytes = TextEncoder_encode P key in
      if key_length_ok keyBytes
      then encrypt_with P W keyBytes (TextEncoder_encode P (JStr data))
      else (Inl InvalidKeyLength, []))"

text \<open>
  \<^verbatim>\<open>Eec.Aes.Gcm.encryptStr\<close>: the handler logs the error and returns \<^verbatim>\<open>{}\<close>, so the
  promise is always fulfilled.
\<close>

definition encryptStr :: "platform \<Rightarrow> world \<Rightarrow> string \<Rightarrow> jsval \<Rightarrow> (exn + jsval) \<times> call list" where
  "encryptStr P W data key =
     (case encryptStr_try P W data key of
        (Inl e, calls) \<Rightarrow> (Inr (JObj []), calls)
      | (Inr v, calls) \<Rightarrow> (Inr v, calls))"

text \<open>\<^verbatim>\<open>Eec.Aes.Gcm.encryptBytes(data, key)\<close>, the same on a byte array.\<close>

definition encryptBytes_try :: "platform \<Rightarrow> world \<Rightarrow> byte list \<Rightarrow> jsval \<Rightarrow> (exn + jsval) \<times> call list" where
  "encryptBytes_try P W data key =
     (let keyBytes = TextEncoder_encode P key in
      if key_length_ok keyBytes
      then encrypt_with P W keyBytes data
      else (Inl InvalidKeyLength, []))"

definition encryptBytes :: "platform \<Rightarrow> world \<Rightarrow> byte list \<Rightarrow> jsval \<Rightarrow> (exn + jsval) \<times> call list" where
  "encryptBytes P W data key =
     (case encryptBytes_try P W data key of
        (Inl e, calls) \<Rightarrow> (Inr (JObj []), calls)
      | (Inr v, calls) \<Rightarrow> (Inr v, calls))"

text \<open>
  The part of \<^verbatim>\<open>decryptStr\<close> and \<^verbatim>\<open>decryptBytes\<close> after the key-length check: import
  the key, decode the three Base64 fields (IV, data, tag, in this order), join
  ciphertext and tag, decrypt.
\<close>

definition decrypt_with :: "platform \<Rightarrow> byte list \<Rightarrow> jsval \<Rightarrow> jsval \<Rightarrow> jsval \<Rightarrow> (exn + byte list) \<times> call list" where
  "decrypt_with P keyBytes data iv tag =
     (case importKey P keyBytes ForDecrypt of
        Inl e \<Rightarrow> (Inl e, [C_importKey keyBytes ForDecrypt])
      | Inr cryptoKey \<Rightarrow>
          (case atob_bytes P iv of
             Inl e \<Rightarrow> (Inl e, [C_importKey keyBytes ForDecrypt])
           | Inr ivBytes \<Rightarrow>
          (case atob_bytes P data of
             Inl e \<Rightarrow> (Inl e, [C_importKey keyBytes ForDecrypt])
           | Inr ciphertextBytes \<Rightarrow>
          (case atob_bytes P tag of
             Inl e \<Rightarrow> (Inl e, [C_importKey keyBytes ForDecrypt])
           | Inr tagBytes \<Rightarrow>
               (let encryptedData = ciphertextBytes @ tagBytes in
                (AES_GCM_decrypt P cryptoKey ivBytes encryptedData,
                 [C_importKey keyBytes ForDecrypt,
                  C_decrypt cryptoKey ivBytes encryptedData]))))))"

text \<open>The \<^verbatim>\<open>try\<close> block of \<^verbatim>\<open>Eec.Aes.Gcm.decryptStr(data, iv, tag, key)\<close>.\<close>

definition decryptStr_try :: "platform \<Rightarrow> jsval \<Rightarrow> jsval \<Rightarrow> jsval \<Rightarrow> jsval \<Rightarrow> (exn + string) \<times> call list" where
  "decryptStr_try P data iv tag key =
     (let keyBytes = TextEncoder_encode P key in
      if key_length_ok keyBytes
      then (case decrypt_with P keyBytes data iv tag of
              (Inl e, calls) \<Rightarrow> (Inl e, calls)
            | (Inr decrypted, calls) \<Rightarrow> (Inr (TextDecoder_decode P decrypted), calls))
      else (Inl InvalidKeyLength, []))"

text \<open>
  \<^verbatim>\<open>Eec.Aes.Gcm.decryptStr\<close>: the handler logs the error and returns the empty string.
\<close>

definition decryptStr :: "platform \<Rightarrow> jsval \<Rightarrow> jsval \<Rightarrow> jsval \<Rightarrow> jsval \<Rightarrow> (exn + string) \<times> call list" where
  "decryptStr P data iv tag key =
     (case decryptStr_try P data iv tag key of
        (Inl e, calls) \<Rightarrow> (Inr [], calls)
      | (Inr s, calls) \<Rightarrow> (Inr s, calls))"

text \<open>
  \<^verbatim>\<open>Eec.Aes.Gcm.decryptBytes(data, iv, tag, key)\<close>; its handler returns an empty byte
  array.
\<close>

definition decryptBytes_try :: "platform \<Rightarrow> jsval \<Rightarrow> jsval \<Rightarrow> jsval \<Rightarrow> jsval \<Rightarrow> (exn + byte list) \<times> call list" where
  "decryptBytes_try P data iv tag key =
     (let keyBytes = TextEncoder_encode P key in
      if key_length_ok keyBytes
      then decrypt_with P keyBytes data iv tag
      else (Inl InvalidKeyLength, []))"

definition decryptBytes :: "platform \<Rightarrow> jsval \<Rightarrow> jsval \<Rightarrow> jsval \<Rightarrow> jsval \<Rightarrow> (exn + byte list) \<times> call list" where
  "decryptBytes P data iv tag key =
     (case decryptBytes_try P data iv tag key of
        (Inl e, calls) \<Rightarrow> (Inr [], calls)
      | (Inr b, calls) \<Rightarrow> (Inr b, calls))"

section \<open>Class RSA\<close>

record RSA =
  rsa_name :: string
  rsa_hash :: string
  rsa_key :: "keypair option"

text \<open>\<^verbatim>\<open>new RSA()\<close>: the constructor's defaults, and no key yet.\<close>

definition new_RSA :: RSA where
  "new_RSA = \<lparr>rsa_name = ''RSA-OAEP'', rsa_hash = ''SHA-256'', rsa_key = None\<rparr>"

text \<open>
  \<^verbatim>\<open>RSA.init()\<close>: the generated pair is stored in \<^verbatim>\<open>this.key\<close>; the handler rethrows a
  failure of the provider as "key generation failed".
\<close>

definition RSA_init :: "world \<Rightarrow> RSA \<Rightarrow> (exn + unit) \<times> RSA \<times> call list" where
  "RSA_init W this =
     (case generateKey W of
        Inl e \<Rightarrow> (Inl KeyGenFailed, this, [C_generateKey])
      | Inr kp \<Rightarrow> (Inr (), this\<lparr>rsa_key := Some kp\<rparr>, [C_generateKey]))"

text \<open>
  \<^verbatim>\<open>s.match(/.{1,n}/g)\<close>: the dot matches every character but a line terminator, so
  the matches are the pieces of at most \<open>n\<close> characters of each line; \<^verbatim>\<open>null\<close> (here
  \<open>None\<close>) when there is no match.
\<close>

definition line_terminator :: "char \<Rightarrow> bool" where
  "line_terminator c = (c = CHR 0x0A \<or> c = CHR 0x0D)"

definition runs_step :: "char \<Rightarrow> string list \<Rightarrow> string list" where
  "runs_step c acc =
     (if line_terminator c then [] # acc
      else (case acc of [] \<Rightarrow> [[c]] | r # rs \<Rightarrow> (c # r) # rs))"

definition dot_runs :: "string \<Rightarrow> string list" where
  "dot_runs s = filter (\<lambda>r. r \<noteq> []) (foldr runs_step s [])"

definition pieces :: "nat \<Rightarrow> string \<Rightarrow> string list" where
  "pieces n s = map (\<lambda>i. take n (drop (n * i) s)) [0..<(length s + n - 1) div n]"

definition match_upto :: "nat \<Rightarrow> string \<Rightarrow> string list option" where
  "match_upto n s =
     (let ms = concat (map (pieces n) (dot_runs s)) in if ms = [] then None else Some ms)"

text \<open>\<^verbatim>\<open>xs.join('\n')\<close>\<close>

fun join_lines :: "string list \<Rightarrow> string" where
  "join_lines [] = []"
| "join_lines [x] = x"
| "join_lines (x # y # ys) = x @ [CHR 0x0A] @ join_lines (y # ys)"

text \<open>
  The \<^verbatim>\<open>try\<close> block of \<^verbatim>\<open>RSA.getPublicKey_pem()\<close>: export the public key, Base64,
  fold at 64 characters, wrap in the PEM lines. Reading \<^verbatim>\<open>this.key.publicKey\<close> with no
  key, and \<^verbatim>\<open>.join\<close> on a \<^verbatim>\<open>null\<close> match, are TypeErrors.
\<close>

definition getPublicKey_pem_try :: "platform \<Rightarrow> RSA \<Rightarrow> (exn + string) \<times> call list" where
  "getPublicKey_pem_try P this =
     (case rsa_key this of
        None \<Rightarrow> (Inl TypeError, [])
      | Some kp \<Rightarrow>
          (case exportKey_spki P (publicKey kp) of
             Inl e \<Rightarrow> (Inl e, [C_exportKey (publicKey kp)])
           | Inr spki \<Rightarrow>
               (let b64 = btoa_bytes P spki in
                case match_upto 64 b64 of
                  None \<Rightarrow> (Inl TypeError, [C_exportKey (publicKey kp)])
                | Some ms \<Rightarrow>
                    (Inr (''-----BEGIN PUBLIC KEY-----'' @ [CHR 0x0A] @ join_lines ms
                          @ [CHR 0x0A] @ ''-----END PUBLIC KEY-----''),
                     [C_exportKey (publicKey kp)]))))"

text \<open>\<^verbatim>\<open>RSA.getPublicKey_pem()\<close>: the handler rethrows every failure as "export failed".\<close>

definition getPublicKey_pem :: "platform \<Rightarrow> RSA \<Rightarrow> (exn + string) \<times> call list" where
  "getPublicKey_pem P this =
     (case getPublicKey_pem_try P this of
        (Inl e, calls) \<Rightarrow> (Inl ExportFailed, calls)
      | (Inr pem, calls) \<Rightarrow> (Inr pem, calls))"

text \<open>
  \<^verbatim>\<open>parseInt(s, 16)\<close> on a piece of one or two characters: leading white space, a sign,
  a \<^verbatim>\<open>0x\<close> prefix, then the longest run of hexadecimal digits; \<open>None\<close> is \<^verbatim>\<open>NaN\<close>.
  (White space is the ASCII part of JavaScript's: space, tab, vertical tab, form feed;
  a line terminator never occurs in a piece.)
\<close>

definition hex_value :: "char \<Rightarrow> nat option" where
  "hex_value c =
     (let n = of_char c :: nat in
      if 48 \<le> n \<and> n \<le> 57 then Some (n - 48)
      else if 97 \<le> n \<and> n \<le> 102 then Some (n - 87)
      else if 65 \<le> n \<and> n \<le> 70 then Some (n - 55)
      else None)"

definition white_space :: "char \<Rightarrow> bool" where
  "white_space c = (c = CHR 0x20 \<or> c = CHR 0x09 \<or> c = CHR 0x0B \<or> c = CHR 0x0C)"

fun hex_digits :: "nat option \<Rightarrow> string \<Rightarrow> nat option" where
  "hex_digits acc [] = acc"
| "hex_digits acc (c # cs) =
     (case hex_value c of
        None \<Rightarrow> acc
      | Some d \<Rightarrow> hex_digits (Some ((case acc of None \<Rightarrow> 0 | Some a \<Rightarrow> 16 * a) + d)) cs)"

definition strip_0x :: "string \<Rightarrow> string" where
  "strip_0x s = (if take 2 s = ''0x'' \<or> take 2 s = ''0X'' then drop 2 s else s)"

definition parseInt16 :: "string \<Rightarrow> int option" where
  "parseInt16 s =
     (let t = dropWhile white_space s in
      case t of
        [] \<Rightarrow> None
      | c # cs \<Rightarrow>
          if c = CHR ''-'' then map_option (\<lambda>n. - int n) (hex_digits None (strip_0x cs))
          else if c = CHR ''+'' then map_option int (hex_digits None (strip_0x cs))
          else map_option int (hex_digits None (strip_0x t)))"

text \<open>Storing a number in a \<^verbatim>\<open>Uint8Array\<close>: modulo 256, and 0 for \<^verbatim>\<open>NaN\<close>.\<close>

definition to_uint8 :: "int option \<Rightarrow> byte" where
  "to_uint8 n = (case n of None \<Rightarrow> 0 | Some i \<Rightarrow> word_of_int i)"

text \<open>
  \<^verbatim>\<open>new Uint8Array(cipherText.match(/.{1,2}/g).map(byte => parseInt(byte, 16)))\<close>:
  a TypeError when \<^verbatim>\<open>cipherText\<close> is not a string (it has no \<^verbatim>\<open>match\<close>) or when nothing
  matches.
\<close>

definition hex_to_bytes :: "jsval \<Rightarrow> exn + byte list" where
  "hex_to_bytes cipherText =
     (case cipherText of
        JStr s \<Rightarrow>
          (case match_upto 2 s of
             None \<Rightarrow> Inl TypeError
           | Some ms \<Rightarrow> Inr (map (\<lambda>piece. to_uint8 (parseInt16 piece)) ms))
      | _ \<Rightarrow> Inl TypeError)"

text \<open>The \<^verbatim>\<open>try\<close> block of \<^verbatim>\<open>RSA.decrypt(cipherText, { input })\<close>.\<close>

definition RSA_decrypt_try :: "platform \<Rightarrow> RSA \<Rightarrow> jsval \<Rightarrow> string \<Rightarrow> (exn + string) \<times> call list" where
  "RSA_decrypt_try P this cipherText input =
     (case rsa_key this of
        None \<Rightarrow> (Inl PrivateKeyMissing, [])
      | Some kp \<Rightarrow>
          (case (if input = ''hex'' then hex_to_bytes cipherText else atob_bytes P cipherText) of
             Inl e \<Rightarrow> (Inl e, [])
           | Inr byteArray \<Rightarrow>
               (case RSA_OAEP_decrypt P (privateKey kp) byteArray of
                  Inl e \<Rightarrow> (Inl e, [C_rsa_decrypt (privateKey kp) byteArray])
                | Inr decrypted \<Rightarrow>
                    (Inr (TextDecoder_decode P decrypted),
                     [C_rsa_decrypt (privateKey kp) byteArray]))))"

text \<open>\<^verbatim>\<open>RSA.decrypt\<close>: the handler rethrows every failure as "decryption failed".\<close>

definition RSA_decrypt :: "platform \<Rightarrow> RSA \<Rightarrow> jsval \<Rightarrow> string \<Rightarrow> (exn + string) \<times> call list" where
  "RSA_decrypt P this cipherText input =
     (case RSA_decrypt_try P this cipherText input of
        (Inl e, calls) \<Rightarrow> (Inl RsaDecryptFailed, calls)
      | (Inr s, calls) \<Rightarrow> (Inr s, calls))"

section \<open>Class State and the global S\<close>

record State =
  rsa :: "RSA option"
  aes_key :: jsval
  pubPem :: jsval
  session_user :: jsval

text \<open>\<^verbatim>\<open>new State()\<close>: every field is \<^verbatim>\<open>null\<close>.\<close>

definition new_State :: State where
  "new_State = \<lparr>rsa = None, aes_key = JNull, pubPem = JNull, session_user = JNull\<rparr>"

section \<open>Class Res\<close>

subsection \<open>Res.rs.work: the handshake\<close>

text \<open>
  The \<^verbatim>\<open>try\<close> block of \<^verbatim>\<open>Res.rs.work()\<close>, the same in both copies of the class. The
  assignments to \<^verbatim>\<open>S.rsa\<close>, \<^verbatim>\<open>S.pubPem\<close> and \<^verbatim>\<open>S.aes_key\<close> happen where the source has
  them, so the state returned with an exception is the state at the \<^verbatim>\<open>throw\<close>.
\<close>

definition rs_request :: "jsval \<Rightarrow> request" where
  "rs_request pem =
     \<lparr>url = ''/rs'', http_method = ''POST'', content_type = None,
      session_user_header = None, credentials = None,
      form = [(''user_key_pub_pem'', pem)], body = None\<rparr>"

definition rs_work_try :: "platform \<Rightarrow> world \<Rightarrow> State \<Rightarrow> (exn + bool) \<times> State \<times> call list" where
  "rs_work_try P W S =
     (case RSA_init W new_RSA of
        (Inl e, this, c1) \<Rightarrow> (Inl e, S\<lparr>rsa := Some this\<rparr>, c1)
      | (Inr u, this, c1) \<Rightarrow>
          (let S1 = S\<lparr>rsa := Some this\<rparr> in
           case getPublicKey_pem P this of
             (Inl e, c2) \<Rightarrow> (Inl e, S1, c1 @ c2)
           | (Inr pem, c2) \<Rightarrow>
               (let S2 = S1\<lparr>pubPem := JStr pem\<rparr>;
                    req = rs_request (pubPem S2);
                    c3 = c1 @ c2 @ [C_fetch req]
                in case fetch W req of
                     Inl e \<Rightarrow> (Inl e, S2, c3)
                   | Inr res \<Rightarrow>
                       if \<not> ok res then (Inl (HttpError (status res)), S2, c3)
                       else
                         (case JSON_parse P (text_body res) of
                            Inl e \<Rightarrow> (Inl e, S2, c3)
                          | Inr result \<Rightarrow>
                              (case get_prop result ''data'' of
                                 Inl e \<Rightarrow> (Inl e, S2, c3)
                               | Inr encryptedKey \<Rightarrow>
                                   (case RSA_decrypt P this encryptedKey ''hex'' of
                                      (Inl e, c4) \<Rightarrow> (Inl e, S2, c3 @ c4)
                                    | (Inr k, c4) \<Rightarrow>
                                        (Inr True, S2\<lparr>aes_key := JStr k\<rparr>, c3 @ c4)))))))"

text \<open>\<^verbatim>\<open>Res.rs.work()\<close>: the handler logs the exception and returns \<^verbatim>\<open>false\<close>.\<close>

definition rs_work :: "platform \<Rightarrow> world \<Rightarrow> State \<Rightarrow> (exn + bool) \<times> State \<times> call list" where
  "rs_work P W S =
     (case rs_work_try P W S of
        (Inl e, S', calls) \<Rightarrow> (Inr False, S', calls)
      | (Inr b, S', calls) \<Rightarrow> (Inr b, S', calls))"

subsection \<open>Res.api.work: the secure request\<close>

text \<open>
  \<^verbatim>\<open>Res.api.check()\<close>. The first copy of the class (lines 127 to 132) throws when the key
  or the session user is falsy, the second (lines 1439 to 1444) when the key is.
\<close>

definition api_check1 :: "State \<Rightarrow> exn + unit" where
  "api_check1 S =
     (if \<not> truthy (aes_key S) \<or> \<not> truthy (session_user S) then Inl ChannelMissing
      else Inr ())"

definition api_check2 :: "State \<Rightarrow> exn + unit" where
  "api_check2 S = (if \<not> truthy (aes_key S) then Inl ChannelMissing else Inr ())"

text \<open>
  The request of \<^verbatim>\<open>Res.api.work\<close>: \<^verbatim>\<open>fetch("/api", { method: "POST", headers:
  { "Content-Type": "application/json", "session_user": S.session_user },
  credentials: "include", body: jsonPayload })\<close>. A string goes out as the header's
  text.
\<close>

definition header_text :: "jsval \<Rightarrow> string option" where
  "header_text v = (case v of JStr s \<Rightarrow> Some s | _ \<Rightarrow> None)"

definition api_request :: "jsval \<Rightarrow> string \<Rightarrow> request" where
  "api_request su jsonPayload =
     \<lparr>url = ''/api'', http_method = ''POST'', content_type = Some ''application/json'',
      session_user_header = header_text su, credentials = Some ''include'',
      form = [], body = Some jsonPayload\<rparr>"

text \<open>
  Lines 113 to 120 (1425 to 1432 in the second copy): the status check,
  \<^verbatim>\<open>res.json()\<close>, \<^verbatim>\<open>const { data, iv, tag } = result.data\<close>, the decryption with the
  key passed in, and \<^verbatim>\<open>JSON.parse\<close> of the decrypted text. The result is the response
  envelope and the parsed payload.
\<close>

definition read_response :: "platform \<Rightarrow> jsval \<Rightarrow> response \<Rightarrow> (exn + jsval \<times> jsval) \<times> call list" where
  "read_response P key res =
     (if \<not> ok res then (Inl (HttpError (status res)), [])
      else
        (case JSON_parse P (text_body res) of
           Inl e \<Rightarrow> (Inl e, [])
         | Inr result \<Rightarrow>
        (case get_prop result ''data'' of
           Inl e \<Rightarrow> (Inl e, [])
         | Inr rd \<Rightarrow>
        (case get_prop rd ''data'' of
           Inl e \<Rightarrow> (Inl e, [])
         | Inr data \<Rightarrow>
        (case get_prop rd ''iv'' of
           Inl e \<Rightarrow> (Inl e, [])
         | Inr iv \<Rightarrow>
        (case get_prop rd ''tag'' of
           Inl e \<Rightarrow> (Inl e, [])
         | Inr tag \<Rightarrow>
        (case decryptStr P data iv tag key of
           (Inl e, c) \<Rightarrow> (Inl e, c)
         | (Inr decryptedJson, c) \<Rightarrow>
        (case JSON_parse P decryptedJson of
           Inl e \<Rightarrow> (Inl e, c)
         | Inr parsed \<Rightarrow> (Inr (result, parsed), c)))))))))"

text \<open>
  The second element of the array that \<^verbatim>\<open>Res.api.work\<close> returns is a JavaScript value
  or, in the second copy's handler, the caught exception itself.
\<close>

datatype slot = Value jsval | Caught exn

type_synonym triple = "jsval \<times> slot \<times> jsval"

text \<open>
  The \<^verbatim>\<open>try\<close> block of \<^verbatim>\<open>Res.api.work(operate, args, algorithm, message)\<close>, with the
  copy's \<^verbatim>\<open>check\<close> as a parameter. The branch for a non-empty \<^verbatim>\<open>algorithm\<close> is commented
  out in the source, so \<^verbatim>\<open>content\<close> stays \<^verbatim>\<open>undefined\<close> there.
\<close>

definition api_work_try ::
  "(State \<Rightarrow> exn + unit) \<Rightarrow> platform \<Rightarrow> world \<Rightarrow> State \<Rightarrow> string \<Rightarrow> jsval \<Rightarrow> string \<Rightarrow> string
     \<Rightarrow> (exn + triple) \<times> State \<times> call list" where
  "api_work_try check P W S operate args algorithm message =
     (case check S of
        Inl e \<Rightarrow> (Inl e, S, [])
      | Inr u \<Rightarrow>
     (let secondLayer = JObj [(''operate'', JStr operate), (''args'', args)];
          jsonString = JSON_stringify P secondLayer
      in case (if algorithm = [] then encryptStr P W jsonString (aes_key S)
               else (Inr JUndefined, [])) of
           (Inl e, c1) \<Rightarrow> (Inl e, S, c1)
         | (Inr content, c1) \<Rightarrow>
     (let firstLayer = JObj [(''message'', JStr message),
                             (''compression'', JBool (algorithm \<noteq> [])),
                             (''algorithm'', JStr algorithm),
                             (''content'', content)];
          jsonPayload = JSON_stringify P firstLayer;
          h = sha256 P (aes_key S);
          S1 = S\<lparr>session_user := JStr (fst h)\<rparr>;
          req = api_request (session_user S1) jsonPayload;
          c2 = c1 @ snd h @ [C_fetch req]
      in case fetch W req of
           Inl e \<Rightarrow> (Inl e, S1, c2)
         | Inr res \<Rightarrow>
     (case read_response P (aes_key S1) res of
        (Inl e, c3) \<Rightarrow> (Inl e, S1, c2 @ c3)
      | (Inr (result, parsed), c3) \<Rightarrow>
     (case get_prop parsed ''key'' of
        Inl e \<Rightarrow> (Inl e, S1, c2 @ c3)
      | Inr k \<Rightarrow>
     (let S2 = S1\<lparr>aes_key := k\<rparr> in
      case get_prop parsed ''data'' of
        Inl e \<Rightarrow> (Inl e, S2, c2 @ c3)
      | Inr d \<Rightarrow>
     (case get_prop result ''message'' of
        Inl e \<Rightarrow> (Inl e, S2, c2 @ c3)
      | Inr m \<Rightarrow>
     (case get_prop result ''code'' of
        Inl e \<Rightarrow> (Inl e, S2, c2 @ c3)
      | Inr code \<Rightarrow> (Inr (d, Value m, code), S2, c2 @ c3)))))))))"

text \<open>
  \<^verbatim>\<open>Res.api.work\<close>, first copy (lines 49 to 126): the handler returns
  \<^verbatim>\<open>[false, "error", 999]\<close>.
\<close>

definition api_work1 ::
  "platform \<Rightarrow> world \<Rightarrow> State \<Rightarrow> string \<Rightarrow> jsval \<Rightarrow> string \<Rightarrow> string
     \<Rightarrow> (exn + triple) \<times> State \<times> call list" where
  "api_work1 P W S operate args algorithm message =
     (case api_work_try api_check1 P W S operate args algorithm message of
        (Inl e, S', calls) \<Rightarrow> (Inr (JBool False, Value (JStr ''error''), JNum 999), S', calls)
      | (Inr t, S', calls) \<Rightarrow> (Inr t, S', calls))"

text \<open>
  \<^verbatim>\<open>Res.api.work\<close>, second copy (lines 1361 to 1438): the handler returns
  \<^verbatim>\<open>[false, e, 999]\<close>, with the caught value \<^verbatim>\<open>e\<close>.
\<close>

definition api_work2 ::
  "platform \<Rightarrow> world \<Rightarrow> State \<Rightarrow> string \<Rightarrow> jsval \<Rightarrow> string \<Rightarrow> string
     \<Rightarrow> (exn + triple) \<times> State \<times> call list" where
  "api_work2 P W S operate args algorithm message =
     (case api_work_try api_check2 P W S operate args algorithm message of
        (Inl e, S', calls) \<Rightarrow> (Inr (JBool False, Caught e, JNum 999), S', calls)
      | (Inr t, S', calls) \<Rightarrow> (Inr t, S', calls))"

subsection \<open>A sequence of calls\<close>

text \<open>
  The calls to \<^verbatim>\<open>Res.api.work\<close> are made one after the other on the one global state:
  each starts in the state the one before left. A cycle records the state before, the
  outcome of the \<^verbatim>\<open>try\<close> block (\<open>Inr\<close> when it reached its \<^verbatim>\<open>return\<close>), the state after,
  and the calls made. Each call has its own world and arguments.
\<close>

record cycle =
  pre :: State
  outcome :: "exn + triple"
  post :: State
  made :: "call list"

type_synonym api_args = "string \<times> jsval \<times> string \<times> string"

fun cycles :: "(State \<Rightarrow> exn + unit) \<Rightarrow> platform \<Rightarrow> State \<Rightarrow> (world \<times> api_args) list \<Rightarrow> cycle list" where
  "cycles check P S [] = []"
| "cycles check P S ((W, (operate, args, algorithm, message)) # rest) =
     (case api_work_try check P W S operate args algorithm message of
        (r, S', calls) \<Rightarrow>
          \<lparr>pre = S, outcome = r, post = S', made = calls\<rparr> # cycles check P S' rest)"


section \<open>Notions of the specification\<close>

text \<open>A symmetric key that is absent or empty, and one that is a non-empty string.\<close>

definition key_absent_or_empty :: "jsval \<Rightarrow> bool" where
  "key_absent_or_empty k = (k = JUndefined \<or> k = JNull \<or> k = JStr [])"

definition key_present :: "jsval \<Rightarrow> bool" where
  "key_present k = (case k of JStr s \<Rightarrow> s \<noteq> [] | _ \<Rightarrow> False)"

text \<open>The failure array of \<^verbatim>\<open>Res.api.work\<close>: \<^verbatim>\<open>false\<close> first, the code 999 last.\<close>

definition failure_triple :: "triple \<Rightarrow> bool" where
  "failure_triple t = (fst t = JBool False \<and> snd (snd t) = JNum 999)"

text \<open>
  What the client relies on from the platform for a round trip: \<^verbatim>\<open>atob\<close> undoes
  \<^verbatim>\<open>btoa\<close>, and for a key of a legal length the provider imports it for both uses and
  its AES-GCM decryption returns what its encryption was given.
\<close>

definition base64_inverts :: "platform \<Rightarrow> bool" where
  "base64_inverts P = (\<forall>b. atob_bytes P (JStr (btoa_bytes P b)) = Inr b)"

definition aes_gcm_inverts :: "platform \<Rightarrow> bool" where
  "aes_gcm_inverts P =
     (\<forall>keyBytes iv m. key_length_ok keyBytes \<longrightarrow>
        (\<exists>ek dk c. importKey P keyBytes ForEncrypt = Inr ek
                 \<and> importKey P keyBytes ForDecrypt = Inr dk
                 \<and> AES_GCM_encrypt P ek iv m = Inr c
                 \<and> AES_GCM_decrypt P dk iv c = Inr m))"

section \<open>A test double of the platform\<close>

text \<open>
  Concrete scenarios need a platform and a network. The double below is small enough
  to evaluate: text is one byte per character, the Base64 pair is the byte-to-character
  map and its inverse, the digest is the first four bytes, the asymmetric decryption is
  the identity, and the symmetric cipher appends the first 16 key bytes as the tag and
  checks them on decryption (it authenticates and does not hide). \<^verbatim>\<open>JSON.parse\<close> knows
  the texts of the scenarios; \<^verbatim>\<open>JSON.stringify\<close> lists the keys whose value is defined.
\<close>

definition mock_encode :: "jsval \<Rightarrow> byte list" where
  "mock_encode v = (case v of JStr s \<Rightarrow> map (\<lambda>c. of_nat (of_char c)) s | _ \<Rightarrow> [])"

definition mock_decode :: "byte list \<Rightarrow> string" where
  "mock_decode bs = map (\<lambda>b. char_of (unat b)) bs"

definition mock_atob :: "jsval \<Rightarrow> exn + byte list" where
  "mock_atob v =
     (case v of JStr s \<Rightarrow> Inr (mock_encode (JStr s))
      | _ \<Rightarrow> Inl (Native ''InvalidCharacterError''))"

definition mock_seal :: "cryptokey \<Rightarrow> byte list \<Rightarrow> byte list \<Rightarrow> exn + byte list" where
  "mock_seal ck iv m = Inr (m @ take 16 (raw ck))"

definition mock_open :: "cryptokey \<Rightarrow> byte list \<Rightarrow> byte list \<Rightarrow> exn + byte list" where
  "mock_open ck iv c =
     (if 16 \<le> length c \<and> drop (length c - 16) c = take 16 (raw ck)
      then Inr (take (length c - 16) c)
      else Inl (Native ''OperationError''))"

definition mock_stringify :: "jsval \<Rightarrow> string" where
  "mock_stringify v =
     (case v of
        JObj kvs \<Rightarrow> concat (map (\<lambda>kv. fst kv @ '';'') (filter (\<lambda>kv. snd kv \<noteq> JUndefined) kvs))
      | _ \<Rightarrow> [])"

definition key0 :: string where "key0 = ''0123456789abcdef''"
definition key1 :: string where "key1 = ''abcdefghijklmnop''"
definition key2 :: string where "key2 = ''ABCDEFGHIJKLMNOP''"

definition envelope :: "string \<Rightarrow> string \<Rightarrow> jsval" where
  "envelope d t =
     JObj [(''code'', JNum 0), (''message'', JStr ''ok''),
           (''data'', JObj [(''data'', JStr d), (''iv'', JStr ''000000000000''),
                            (''tag'', JStr t)])]"

definition mock_json :: "(string \<times> jsval) list" where
  "mock_json =
     [(''response 1'', envelope ''payload 1'' key0),
      (''response 2'', envelope ''payload 2'' key1),
      (''tampered 1'', envelope ''payload 1'' key2),
      (''payload 1'', JObj [(''data'', JStr ''one''), (''key'', JStr key1)]),
      (''payload 2'', JObj [(''data'', JStr ''two''), (''key'', JStr key2)]),
      (''short key'', JObj [(''data'', JStr ''73686f7274'')])]"

definition mock_parse :: "string \<Rightarrow> exn + jsval" where
  "mock_parse s =
     (case map_of mock_json s of None \<Rightarrow> Inl (Native ''SyntaxError'') | Some v \<Rightarrow> Inr v)"

definition mock_platform :: platform where
  "mock_platform =
     \<lparr>TextEncoder_encode = mock_encode,
      TextDecoder_decode = mock_decode,
      btoa_bytes = mock_decode,
      atob_bytes = mock_atob,
      JSON_stringify = mock_stringify,
      JSON_parse = mock_parse,
      digest = (\<lambda>alg bs. Inr (take 4 bs)),
      importKey = (\<lambda>keyBytes u. Inr (CryptoKey keyBytes u)),
      AES_GCM_encrypt = mock_seal,
      AES_GCM_decrypt = mock_open,
      exportKey_spki = (\<lambda>k. Inr [48, 49, 50]),
      RSA_OAEP_decrypt = (\<lambda>k bs. Inr bs)\<rparr>"

text \<open>A world whose server answers every request with the given status and body.\<close>

definition mock_world :: "int \<Rightarrow> string \<Rightarrow> world" where
  "mock_world st b =
     \<lparr>getRandomValues = (\<lambda>n. replicate n 0),
      generateKey = Inr \<lparr>publicKey = 1, privateKey = 2\<rparr>,
      fetch = (\<lambda>req. Inr \<lparr>status = st, text_body = b\<rparr>)\<rparr>"

text \<open>The state after a handshake that installed \<open>key0\<close>.\<close>

definition mock_State :: State where
  "mock_State =
     \<lparr>rsa = Some (new_RSA\<lparr>rsa_key := Some \<lparr>publicKey = 1, privateKey = 2\<rparr>\<rparr>),
      aes_key = JStr key0,
      pubPem = JStr ''pem'',
      session_user = JNull\<rparr>"

text \<open>The scenarios: the arguments of a call, what it sends and what it reads back.\<close>

definition mock_args :: jsval where
  "mock_args = JObj [(''id'', JStr ''abc'')]"

definition mock_key_bytes :: "string \<Rightarrow> byte list" where
  "mock_key_bytes k = mock_encode (JStr k)"

definition mock_request :: "string \<Rightarrow> request" where
  "mock_request h = api_request (JStr h) ''message;compression;algorithm;content;''"

definition mock_sent :: "string \<Rightarrow> string \<Rightarrow> call list" where
  "mock_sent k h =
     [C_importKey (mock_key_bytes k) ForEncrypt, C_getRandomValues 12,
      C_encrypt (CryptoKey (mock_key_bytes k) ForEncrypt) (replicate 12 0)
        (mock_encode (JStr ''operate;args;'')),
      C_digest SHA256 (mock_key_bytes k),
      C_fetch (mock_request h)]"

definition mock_received :: "string \<Rightarrow> string \<Rightarrow> string \<Rightarrow> call list" where
  "mock_received k d t =
     [C_importKey (mock_key_bytes k) ForDecrypt,
      C_decrypt (CryptoKey (mock_key_bytes k) ForDecrypt)
        (mock_encode (JStr ''000000000000'')) (mock_encode (JStr (d @ t)))]"

definition mock_script :: "(world \<times> api_args) list" where
  "mock_script =
     [(mock_world 200 ''response 1'', ''first'', mock_args, [], []),
      (mock_world 200 ''response 2'', ''second'', mock_args, [], []),
      (mock_world 200 ''response 2'', ''third'', mock_args, [], [])]"

definition mock_pem :: string where
  "mock_pem = ''-----BEGIN PUBLIC KEY-----'' @ [CHR 0x0A] @ ''012'' @ [CHR 0x0A]
              @ ''-----END PUBLIC KEY-----''"

definition mock_RSA :: RSA where
  "mock_RSA = new_RSA\<lparr>rsa_key := Some \<lparr>publicKey = 1, privateKey = 2\<rparr>\<rparr>"

section \<open>The entry check (claim C2)\<close>

lemma truthy_absent: "key_absent_or_empty k \<Longrightarrow> \<not> truthy k"
  by (auto simp: key_absent_or_empty_def)

lemma truthy_present: "key_present k \<Longrightarrow> truthy k"
  by (cases k) (auto simp: key_present_def)

lemma api_work_try_check_fails:
  "check S = Inl e \<Longrightarrow> api_work_try check P W S operate args algorithm message = (Inl e, S, [])"
  by (simp add: api_work_try_def)

text \<open>
  Claim C2. When \<^verbatim>\<open>S.aes_key\<close> is absent or empty, \<^verbatim>\<open>Res.api.work\<close> (either copy)
  returns its failure array at once: the state is the one it started in and the list of
  calls is empty, so nothing went to the network or to the provider. When the key is a
  non-empty string, the second copy's check passes, and the first copy's check passes
  exactly when \<^verbatim>\<open>S.session_user\<close> is set as well.
\<close>

theorem entry_check:
  "(key_absent_or_empty (aes_key S) \<longrightarrow>
      api_work1 P W S operate args algorithm message
        = (Inr (JBool False, Value (JStr ''error''), JNum 999), S, [])
    \<and> api_work2 P W S operate args algorithm message
        = (Inr (JBool False, Caught ChannelMissing, JNum 999), S, []))
 \<and> (key_present (aes_key S) \<longrightarrow>
      api_check2 S = Inr () \<and> (api_check1 S = Inr ()) = truthy (session_user S))"
proof (intro conjI impI)
  assume absent: "key_absent_or_empty (aes_key S)"
  then have c1: "api_check1 S = Inl ChannelMissing" and c2: "api_check2 S = Inl ChannelMissing"
    by (simp_all add: api_check1_def api_check2_def truthy_absent)
  show "api_work1 P W S operate args algorithm message
          = (Inr (JBool False, Value (JStr ''error''), JNum 999), S, [])"
    using c1 by (simp add: api_work1_def api_work_try_check_fails)
  show "api_work2 P W S operate args algorithm message
          = (Inr (JBool False, Caught ChannelMissing, JNum 999), S, [])"
    using c2 by (simp add: api_work2_def api_work_try_check_fails)
next
  assume present: "key_present (aes_key S)"
  then show "api_check2 S = Inr ()"
    by (simp add: api_check2_def truthy_present)
  from present show "(api_check1 S = Inr ()) = truthy (session_user S)"
    by (simp add: api_check1_def truthy_present)
qed

theorem entry_check_witness:
  "key_absent_or_empty (aes_key new_State)
   \<and> api_work1 mock_platform (mock_world 200 ''response 1'') new_State ''get_user'' JNull [] []
        = (Inr (JBool False, Value (JStr ''error''), JNum 999), new_State, [])
   \<and> api_work2 mock_platform (mock_world 200 ''response 1'') new_State ''get_user'' JNull [] []
        = (Inr (JBool False, Caught ChannelMissing, JNum 999), new_State, [])
   \<and> key_present (aes_key mock_State)
   \<and> api_check2 mock_State = Inr ()
   \<and> api_check1 mock_State \<noteq> Inr ()"
  using entry_check [of new_State mock_platform "mock_world 200 ''response 1''" "''get_user''" JNull "[]" "[]"]
        entry_check [of mock_State]
  by (simp add: key_absent_or_empty_def key_present_def new_State_def mock_State_def key0_def)

section \<open>The key-length check of Eec.Aes.Gcm (claim C9)\<close>

lemma mock_short_key: "\<not> key_length_ok (TextEncoder_encode mock_platform (JStr ''short''))"
  by (simp add: mock_platform_def mock_encode_def key_length_ok_def)

text \<open>
  Claim C9, as the specification words it: with a key whose encoded length is not 16, 24
  or 32, every symmetric operation fails with an invalid-key error. It does not hold of
  the functions as callers see them: with the five-byte key \<^verbatim>\<open>"short"\<close> the promise of
  \<^verbatim>\<open>encryptStr\<close> is fulfilled with \<^verbatim>\<open>{}\<close> and that of \<^verbatim>\<open>decryptStr\<close> with the empty
  string.
\<close>

theorem invalid_key_returns_default:
  "length (TextEncoder_encode mock_platform (JStr ''short'')) = 5
   \<and> encryptStr mock_platform (mock_world 200 []) ''hello'' (JStr ''short'') = (Inr (JObj []), [])
   \<and> decryptStr mock_platform (JStr ''hello'') (JStr ''000000000000'') (JStr key0) (JStr ''short'')
        = (Inr [], [])"
  by (simp add: mock_platform_def mock_encode_def encryptStr_def encryptStr_try_def
        decryptStr_def decryptStr_try_def key_length_ok_def)

text \<open>
  Claim C9, amended. With such a key, the \<^verbatim>\<open>try\<close> block of each of the four operations
  throws the invalid-key error before any call to the provider (no key import, no random
  IV, no encryption or decryption: the list of calls is empty); the operation's own
  handler catches it, and the operation returns its default: \<^verbatim>\<open>{}\<close> from the two
  encryptions, the empty string from \<^verbatim>\<open>decryptStr\<close>, an empty byte array from
  \<^verbatim>\<open>decryptBytes\<close>.
\<close>

theorem invalid_key_no_provider_call:
  assumes "\<not> key_length_ok (TextEncoder_encode P key)"
  shows "encryptStr_try P W s key = (Inl InvalidKeyLength, [])
       \<and> encryptStr P W s key = (Inr (JObj []), [])
       \<and> encryptBytes_try P W b key = (Inl InvalidKeyLength, [])
       \<and> encryptBytes P W b key = (Inr (JObj []), [])
       \<and> decryptStr_try P d i t key = (Inl InvalidKeyLength, [])
       \<and> decryptStr P d i t key = (Inr [], [])
       \<and> decryptBytes_try P d i t key = (Inl InvalidKeyLength, [])
       \<and> decryptBytes P d i t key = (Inr [], [])"
  using assms
  by (simp add: encryptStr_def encryptStr_try_def encryptBytes_def encryptBytes_try_def
        decryptStr_def decryptStr_try_def decryptBytes_def decryptBytes_try_def)

theorem invalid_key_no_provider_call_witness:
  "\<not> key_length_ok (TextEncoder_encode mock_platform (JStr ''short''))
   \<and> encryptStr_try mock_platform (mock_world 200 []) ''hello'' (JStr ''short'') = (Inl InvalidKeyLength, [])
   \<and> encryptStr mock_platform (mock_world 200 []) ''hello'' (JStr ''short'') = (Inr (JObj []), [])
   \<and> decryptStr_try mock_platform (JStr ''hello'') (JStr ''000000000000'') (JStr key0) (JStr ''short'')
        = (Inl InvalidKeyLength, [])
   \<and> decryptBytes mock_platform (JStr ''hello'') (JStr ''000000000000'') (JStr key0) (JStr ''short'')
        = (Inr [], [])"
  using invalid_key_no_provider_call [OF mock_short_key] mock_short_key
  by simp

section \<open>Encryption followed by decryption (claim C8)\<close>

lemma slices_join: "slice_0_m16 a @ slice_m16 a = a"
  by (simp add: slice_0_m16_def slice_m16_def)

lemma get_prop_blob:
  "get_prop (JObj [(''iv'', i), (''data'', d), (''tag'', t)]) ''data'' = Inr d"
  "get_prop (JObj [(''iv'', i), (''data'', d), (''tag'', t)]) ''iv'' = Inr i"
  "get_prop (JObj [(''iv'', i), (''data'', d), (''tag'', t)]) ''tag'' = Inr t"
  by simp_all






lemma mock_key0_length: "key_length_ok (TextEncoder_encode mock_platform (JStr key0))"
  by (simp add: mock_platform_def mock_encode_def key_length_ok_def key0_def)




text \<open>
  On byte arrays, \<^verbatim>\<open>encryptBytes\<close> and \<^verbatim>\<open>decryptBytes\<close>, the same holds with no
  condition on the text codec.
\<close>

lemma encryptBytes_decryptBytes_roundtrip:
  assumes len: "key_length_ok (TextEncoder_encode P k)"
      and aes: "aes_gcm_inverts P"
      and b64: "base64_inverts P"
  shows "\<exists>blob c1 data iv tag c2.
           encryptBytes P W m k = (Inr blob, c1)
         \<and> get_prop blob ''data'' = Inr data
         \<and> get_prop blob ''iv'' = Inr iv
         \<and> get_prop blob ''tag'' = Inr tag
         \<and> decryptBytes P data iv tag k = (Inr m, c2)"
proof -
  let ?kb = "TextEncoder_encode P k"
  let ?iv = "getRandomValues W 12"
  from aes len obtain ek dk c where
    ek: "importKey P ?kb ForEncrypt = Inr ek" and
    dk: "importKey P ?kb ForDecrypt = Inr dk" and
    enc: "AES_GCM_encrypt P ek ?iv m = Inr c" and
    dec: "AES_GCM_decrypt P dk ?iv c = Inr m"
    unfolding aes_gcm_inverts_def by blast
  let ?blob = "JObj [(''iv'', JStr (btoa_bytes P ?iv)),
                     (''data'', JStr (btoa_bytes P (slice_0_m16 c))),
                     (''tag'', JStr (btoa_bytes P (slice_m16 c)))]"
  have undo: "\<And>b. atob_bytes P (JStr (btoa_bytes P b)) = Inr b"
    using b64 by (simp add: base64_inverts_def)
  have e: "encryptBytes P W m k =
             (Inr ?blob, [C_importKey ?kb ForEncrypt, C_getRandomValues 12, C_encrypt ek ?iv m])"
    using len ek enc by (simp add: encryptBytes_def encryptBytes_try_def encrypt_with_def Let_def)
  have d: "decryptBytes P (JStr (btoa_bytes P (slice_0_m16 c))) (JStr (btoa_bytes P ?iv))
             (JStr (btoa_bytes P (slice_m16 c))) k =
             (Inr m, [C_importKey ?kb ForDecrypt, C_decrypt dk ?iv c])"
    using len dk dec
    by (simp add: decryptBytes_def decryptBytes_try_def decrypt_with_def Let_def undo slices_join)
  show ?thesis
    using e d get_prop_blob by blast
qed

section \<open>The runs of Res.api.work\<close>

text \<open>
  Reading a property fails only on \<^verbatim>\<open>undefined\<close> and \<^verbatim>\<open>null\<close>; the symmetric operations,
  the hash and the reading of a response make no network call.
\<close>

lemma get_prop_Inl_iff: "get_prop v name = Inl e \<longleftrightarrow> (v = JUndefined \<or> v = JNull) \<and> e = TypeError"
  by (cases v) auto

lemma encrypt_with_no_fetch: "encrypt_with P W kb d = (r, c) \<Longrightarrow> C_fetch req \<notin> set c"
  by (auto simp: encrypt_with_def Let_def split: sum.splits)

lemma encryptStr_no_fetch: "encryptStr P W d k = (r, c) \<Longrightarrow> C_fetch req \<notin> set c"
  by (auto simp: encryptStr_def encryptStr_try_def Let_def dest: encrypt_with_no_fetch split: prod.splits sum.splits if_splits)

lemma decrypt_with_no_fetch: "decrypt_with P kb d i t = (r, c) \<Longrightarrow> C_fetch req \<notin> set c"
  by (auto simp: decrypt_with_def Let_def split: sum.splits)

lemma decryptStr_no_fetch: "decryptStr P d i t k = (r, c) \<Longrightarrow> C_fetch req \<notin> set c"
  by (auto simp: decryptStr_def decryptStr_try_def Let_def dest: decrypt_with_no_fetch split: prod.splits sum.splits if_splits)

lemma sha256_no_fetch: "C_fetch req \<notin> set (snd (sha256 P k))"
  by (auto simp: sha256_def Let_def split: sum.splits)

lemma read_response_no_fetch: "read_response P k res = (r, c) \<Longrightarrow> C_fetch req \<notin> set c"
  by (auto simp: read_response_def dest: decryptStr_no_fetch split: if_splits sum.splits prod.splits)

lemma read_response_not_ok:
  "\<not> ok res \<Longrightarrow> read_response P k res = (Inl (HttpError (status res)), [])"
  by (simp add: read_response_def)

lemma read_response_result:
  "read_response P k res = (Inr (result, parsed), c) \<Longrightarrow> \<exists>rd. get_prop result ''data'' = Inr rd"
  by (auto simp: read_response_def split: if_splits sum.splits prod.splits)

lemma api_work_try_cases [consumes 1, case_names no_channel not_sent net_error bad_response no_key returned]:
  assumes run: "api_work_try check P W S operate args algorithm message = (r, S', calls)"
  obtains
    (no_channel) e where
      "check S = Inl e" "r = Inl e" "S' = S" "calls = []"
  | (not_sent) e where
      "r = Inl e" "S' = S" "\<And>q. C_fetch q \<notin> set calls"
  | (net_error) req before e where
      "check S = Inr ()" "calls = before @ [C_fetch req]"
      "\<And>q. C_fetch q \<notin> set before"
      "session_user_header req = Some (fst (sha256 P (aes_key S)))"
      "fetch W req = Inl e" "r = Inl e"
      "S' = S\<lparr>session_user := JStr (fst (sha256 P (aes_key S)))\<rparr>"
  | (bad_response) req before after res e where
      "check S = Inr ()" "calls = before @ [C_fetch req] @ after"
      "\<And>q. C_fetch q \<notin> set before" "\<And>q. C_fetch q \<notin> set after"
      "session_user_header req = Some (fst (sha256 P (aes_key S)))"
      "fetch W req = Inr res" "read_response P (aes_key S) res = (Inl e, after)" "r = Inl e"
      "S' = S\<lparr>session_user := JStr (fst (sha256 P (aes_key S)))\<rparr>"
  | (no_key) req before after res result parsed e where
      "check S = Inr ()" "calls = before @ [C_fetch req] @ after"
      "\<And>q. C_fetch q \<notin> set before" "\<And>q. C_fetch q \<notin> set after"
      "session_user_header req = Some (fst (sha256 P (aes_key S)))"
      "fetch W req = Inr res"
      "read_response P (aes_key S) res = (Inr (result, parsed), after)"
      "get_prop parsed ''key'' = Inl e" "r = Inl e"
      "S' = S\<lparr>session_user := JStr (fst (sha256 P (aes_key S)))\<rparr>"
  | (returned) req before after res result parsed k d m code where
      "check S = Inr ()" "calls = before @ [C_fetch req] @ after"
      "\<And>q. C_fetch q \<notin> set before" "\<And>q. C_fetch q \<notin> set after"
      "session_user_header req = Some (fst (sha256 P (aes_key S)))"
      "fetch W req = Inr res"
      "read_response P (aes_key S) res = (Inr (result, parsed), after)"
      "get_prop parsed ''key'' = Inr k" "get_prop parsed ''data'' = Inr d"
      "get_prop result ''message'' = Inr m" "get_prop result ''code'' = Inr code"
      "r = Inr (d, Value m, code)"
      "S' = S\<lparr>session_user := JStr (fst (sha256 P (aes_key S))), aes_key := k\<rparr>"
proof (cases "check S")
  case (Inl e)
  with run show ?thesis
    by (intro no_channel [of e]) (simp_all add: api_work_try_def)
next
  case (Inr u)
  let ?S1 = "S\<lparr>session_user := JStr (fst (sha256 P (aes_key S)))\<rparr>"
  obtain cr c1 where enc:
    "(if algorithm = []
      then encryptStr P W (JSON_stringify P (JObj [(''operate'', JStr operate), (''args'', args)])) (aes_key S)
      else (Inr JUndefined, [])) = (cr, c1)"
    by fastforce
  have nf1: "C_fetch q \<notin> set c1" for q
    using enc by (auto dest: encryptStr_no_fetch split: if_splits)
  show ?thesis
  proof (cases cr)
    case (Inl e)
    with run Inr enc nf1 show ?thesis
      by (intro not_sent [of e]) (auto simp: api_work_try_def Let_def)
  next
    case content: (Inr content)
    let ?req = "api_request (JStr (fst (sha256 P (aes_key S))))
                  (JSON_stringify P (JObj [(''message'', JStr message),
                             (''compression'', JBool (algorithm \<noteq> [])),
                             (''algorithm'', JStr algorithm),
                             (''content'', content)]))"
    let ?before = "c1 @ snd (sha256 P (aes_key S))"
    have nfb: "C_fetch q \<notin> set ?before" for q
      using nf1 sha256_no_fetch by auto
    have hdr: "session_user_header ?req = Some (fst (sha256 P (aes_key S)))"
      by (simp add: api_request_def header_text_def)
    show ?thesis
    proof (cases "fetch W ?req")
      case (Inl e)
      with run Inr enc content have "r = Inl e" "S' = ?S1" "calls = ?before @ [C_fetch ?req]"
        by (simp_all add: api_work_try_def Let_def)
      with Inr Inl nfb hdr show ?thesis
        by (intro net_error [where req = ?req and before = ?before and e = e]) simp_all
    next
      case res: (Inr res)
      obtain rr c3 where rd: "read_response P (aes_key S) res = (rr, c3)"
        by fastforce
      have nf3: "C_fetch q \<notin> set c3" for q
        using rd by (auto dest: read_response_no_fetch)
      have eq: "(r, S', calls) =
          (case rr of Inl e \<Rightarrow> (Inl e, ?S1, ?before @ [C_fetch ?req] @ c3)
           | Inr (result, parsed) \<Rightarrow>
             (case get_prop parsed ''key'' of
                Inl e \<Rightarrow> (Inl e, ?S1, ?before @ [C_fetch ?req] @ c3)
              | Inr k \<Rightarrow>
                (case get_prop parsed ''data'' of
                   Inl e \<Rightarrow> (Inl e, ?S1\<lparr>aes_key := k\<rparr>, ?before @ [C_fetch ?req] @ c3)
                 | Inr d \<Rightarrow>
                (case get_prop result ''message'' of
                   Inl e \<Rightarrow> (Inl e, ?S1\<lparr>aes_key := k\<rparr>, ?before @ [C_fetch ?req] @ c3)
                 | Inr m \<Rightarrow>
                (case get_prop result ''code'' of
                   Inl e \<Rightarrow> (Inl e, ?S1\<lparr>aes_key := k\<rparr>, ?before @ [C_fetch ?req] @ c3)
                 | Inr code \<Rightarrow> (Inr (d, Value m, code), ?S1\<lparr>aes_key := k\<rparr>, ?before @ [C_fetch ?req] @ c3))))))"
        using run [symmetric] Inr enc content res rd
        by (simp add: api_work_try_def Let_def split: sum.splits prod.splits)
      show ?thesis
      proof (cases rr)
        case (Inl e)
        with eq have "r = Inl e" "S' = ?S1" "calls = ?before @ [C_fetch ?req] @ c3"
          by simp_all
        with Inr Inl nfb nf3 hdr res rd show ?thesis
          by (intro bad_response [where req = ?req and before = ?before and after = c3 and res = res and e = e]) simp_all
      next
        case rp: (Inr rp)
        obtain result parsed where rp2: "rp = (result, parsed)"
          by (cases rp)
        from rd rp rp2 have "\<exists>x. get_prop result ''data'' = Inr x"
          using read_response_result by blast
        then have notnull: "result \<noteq> JUndefined" "result \<noteq> JNull"
          by auto
        show ?thesis
        proof (cases "get_prop parsed ''key''")
          case (Inl e)
          with eq rp rp2 have "r = Inl e" "S' = ?S1" "calls = ?before @ [C_fetch ?req] @ c3"
            by simp_all
          with Inr Inl nfb nf3 hdr res rd rp rp2 show ?thesis
            by (intro no_key [where req = ?req and before = ?before and after = c3 and res = res and result = result and parsed = parsed and e = e]) simp_all
        next
          case k: (Inr k)
          then have pnn: "parsed \<noteq> JUndefined" "parsed \<noteq> JNull"
            by auto
          obtain d where d: "get_prop parsed ''data'' = Inr d"
            using pnn by (cases "get_prop parsed ''data''") (auto simp: get_prop_Inl_iff)
          obtain m where m: "get_prop result ''message'' = Inr m"
            using notnull by (cases "get_prop result ''message''") (auto simp: get_prop_Inl_iff)
          obtain code where code: "get_prop result ''code'' = Inr code"
            using notnull by (cases "get_prop result ''code''") (auto simp: get_prop_Inl_iff)
          from eq rp rp2 k d m code
          have "r = Inr (d, Value m, code)" "S' = ?S1\<lparr>aes_key := k\<rparr>"
               "calls = ?before @ [C_fetch ?req] @ c3"
            by simp_all
          with Inr nfb nf3 hdr res rd rp rp2 k d m code show ?thesis
            by (intro returned [where req = ?req and before = ?before and after = c3 and res = res and result = result and parsed = parsed and k = k and d = d and m = m and code = code]) simp_all
        qed
      qed
    qed
  qed
qed

text \<open>
  Every run of the \<^verbatim>\<open>try\<close> block is of one of six kinds: the check threw; the content
  could not be built (no request went out); the request went out and \<^verbatim>\<open>fetch\<close> threw;
  the response could not be read (status, JSON, decryption or payload); the payload has
  no properties; or the block returned. In the last four the one request carries the
  hash of the key the call started with.
\<close>

lemma read_response_ok:
  "read_response P k res = (Inr rp, c) \<Longrightarrow> ok res"
  by (auto simp: read_response_def split: if_splits sum.splits prod.splits)

lemma fetch_unique:
  assumes "C_fetch req \<in> set (before @ [C_fetch req'] @ after)"
      and "\<And>q. C_fetch q \<notin> set before" and "\<And>q. C_fetch q \<notin> set after"
  shows "req = req'"
  using assms by auto

lemma api_work_try_frame:
  assumes "api_work_try check P W S operate args algorithm message = (r, S', calls)"
  shows "rsa S' = rsa S \<and> pubPem S' = pubPem S"
  using assms by (cases rule: api_work_try_cases) simp_all

lemma api_work_try_failure:
  assumes "api_work_try check P W S operate args algorithm message = (Inl e, S', calls)"
  shows "aes_key S' = aes_key S"
  using assms by (cases rule: api_work_try_cases) simp_all

lemma api_work_try_non_2xx:
  assumes run: "api_work_try check P W S operate args algorithm message = (r, S', calls)"
      and sent: "C_fetch req \<in> set calls"
      and res: "fetch W req = Inr res" and bad: "\<not> ok res"
  shows "r = Inl (HttpError (status res))
       \<and> S' = S\<lparr>session_user := JStr (fst (sha256 P (aes_key S)))\<rparr>"
  using run
proof (cases rule: api_work_try_cases)
  case (no_channel e)
  with sent show ?thesis by simp
next
  case (not_sent e)
  with sent show ?thesis by simp
next
  case (net_error req' before e)
  with sent have "req = req'" by auto
  with net_error res show ?thesis by simp
next
  case (bad_response req' before after res' e)
  with sent have "req = req'" by auto
  with bad_response res have "res' = res" by simp
  with bad_response bad show ?thesis
    by (simp add: read_response_not_ok)
next
  case (no_key req' before after res' result parsed e)
  with sent have "req = req'" by auto
  with no_key res have "res' = res" by simp
  with no_key bad show ?thesis
    by (auto dest: read_response_ok)
next
  case (returned req' before after res' result parsed k d m code)
  with sent have "req = req'" by auto
  with returned res have "res' = res" by simp
  with returned bad show ?thesis
    by (auto dest: read_response_ok)
qed

lemma api_work_try_unreadable:
  assumes run: "api_work_try check P W S operate args algorithm message = (r, S', calls)"
      and sent: "C_fetch req \<in> set calls"
      and res: "fetch W req = Inr res"
      and bad: "read_response P (aes_key S) res = (Inl e, c)"
  shows "r = Inl e \<and> aes_key S' = aes_key S"
  using run
proof (cases rule: api_work_try_cases)
  case (no_channel e)
  with sent show ?thesis by simp
next
  case (not_sent e)
  with sent show ?thesis by simp
next
  case (net_error req' before e)
  with sent have "req = req'" by auto
  with net_error res show ?thesis by simp
next
  case (bad_response req' before after res' e)
  with sent have "req = req'" by auto
  with bad_response res have "res' = res" by simp
  with bad_response bad show ?thesis by simp
next
  case (no_key req' before after res' result parsed e)
  with sent have "req = req'" by auto
  with no_key res have "res' = res" by simp
  with no_key bad show ?thesis by simp
next
  case (returned req' before after res' result parsed k d m code)
  with sent have "req = req'" by auto
  with returned res have "res' = res" by simp
  with returned bad show ?thesis by simp
qed

lemma api_work_outcome:
  assumes "work = api_work1 \<or> work = api_work2"
      and "work P W S operate args algorithm message = (out, S', calls)"
  obtains check r where
      "api_work_try check P W S operate args algorithm message = (r, S', calls)"
      "\<And>e. r = Inl e \<Longrightarrow> \<exists>t. out = Inr t \<and> failure_triple t"
      "\<And>t. r = Inr t \<Longrightarrow> out = Inr t"
proof -
  from assms(1) show thesis
  proof
    assume w: "work = api_work1"
    obtain r where r: "api_work_try api_check1 P W S operate args algorithm message = (r, S', calls)"
      using assms(2) w by (auto simp: api_work1_def split: prod.splits sum.splits)
    with assms(2) w show thesis
      by (intro that [of api_check1 r]) (auto simp: api_work1_def failure_triple_def)
  next
    assume w: "work = api_work2"
    obtain r where r: "api_work_try api_check2 P W S operate args algorithm message = (r, S', calls)"
      using assms(2) w by (auto simp: api_work2_def split: prod.splits sum.splits)
    with assms(2) w show thesis
      by (intro that [of api_check2 r]) (auto simp: api_work2_def failure_triple_def)
  qed
qed

subsection \<open>Evaluating the scenarios\<close>

lemmas mock_defs = mock_platform_def mock_world_def mock_State_def mock_encode_def mock_decode_def
  mock_atob_def mock_seal_def mock_open_def mock_stringify_def mock_parse_def mock_json_def
  envelope_def key0_def key1_def key2_def new_RSA_def new_State_def

lemmas model_defs = api_work1_def api_work2_def api_work_try_def api_check1_def api_check2_def
  api_request_def header_text_def read_response_def ok_def
  encryptStr_def encryptStr_try_def encrypt_with_def decryptStr_def decryptStr_try_def decrypt_with_def
  key_length_ok_def slice_0_m16_def slice_m16_def sha256_def hex_of_bytes_def padStart2_def
  toString16_def hex_digit_def Let_def


lemmas mock_scenario_defs = mock_args_def mock_key_bytes_def mock_request_def mock_sent_def
  mock_received_def mock_script_def mock_pem_def mock_RSA_def

lemma mock_run_500:
  "api_work2 mock_platform (mock_world 500 []) mock_State ''get_user'' mock_args [] []
     = (Inr (JBool False, Caught (HttpError 500), JNum 999),
        mock_State\<lparr>session_user := JStr ''30313233''\<rparr>, mock_sent key0 ''30313233'')"
  by (simp add: model_defs mock_defs mock_scenario_defs)

lemma mock_run_tampered:
  "api_work2 mock_platform (mock_world 200 ''tampered 1'') mock_State ''get_user'' mock_args [] []
     = (Inr (JBool False, Caught (Native ''SyntaxError''), JNum 999),
        mock_State\<lparr>session_user := JStr ''30313233''\<rparr>,
        mock_sent key0 ''30313233'' @ mock_received key0 ''payload 1'' key2)"
  by (simp add: model_defs mock_defs mock_scenario_defs)

lemma mock_fetch: "fetch (mock_world st b) req = Inr \<lparr>status = st, text_body = b\<rparr>"
  by (simp add: mock_world_def)

section \<open>A response that is not 2xx (claim C3)\<close>

text \<open>
  Claim C3, as the specification words it: on a status outside 200 to 299 the call
  returns the failure array with code 999 and leaves the channel state untouched. The
  second half fails: after a handshake (\<^verbatim>\<open>S.session_user\<close> still \<^verbatim>\<open>null\<close>), a call of
  the second copy answered with status 500 leaves \<^verbatim>\<open>S.session_user\<close> set to the hash
  of the key, which the source assigns before \<^verbatim>\<open>fetch\<close>.
\<close>

theorem non_2xx_sets_session_user:
  "\<not> ok \<lparr>status = 500, text_body = []\<rparr>
   \<and> fetch (mock_world 500 []) (mock_request ''30313233'') = Inr \<lparr>status = 500, text_body = []\<rparr>
   \<and> api_work2 mock_platform (mock_world 500 []) mock_State ''get_user'' mock_args [] []
     = (Inr (JBool False, Caught (HttpError 500), JNum 999),
        mock_State\<lparr>session_user := JStr ''30313233''\<rparr>, mock_sent key0 ''30313233'')
   \<and> mock_State\<lparr>session_user := JStr ''30313233''\<rparr> \<noteq> mock_State"
  using mock_run_500 by (simp add: ok_def mock_fetch mock_State_def)

text \<open>
  Claim C3, amended. When the response to the request is not 2xx, \<^verbatim>\<open>Res.api.work\<close>
  (either copy) returns a failure array (\<^verbatim>\<open>false\<close> first, 999 last); \<^verbatim>\<open>S.aes_key\<close>,
  \<^verbatim>\<open>S.rsa\<close> and \<^verbatim>\<open>S.pubPem\<close> keep their values from before the call, and
  \<^verbatim>\<open>S.session_user\<close> is the hex SHA-256 of that unchanged key.
\<close>

theorem non_2xx_keeps_key:
  assumes "work = api_work1 \<or> work = api_work2"
      and "work P W S operate args algorithm message = (out, S', calls)"
      and "C_fetch req \<in> set calls" and "fetch W req = Inr res" and "\<not> ok res"
  shows "(\<exists>t. out = Inr t \<and> failure_triple t)
       \<and> aes_key S' = aes_key S \<and> rsa S' = rsa S \<and> pubPem S' = pubPem S
       \<and> session_user S' = JStr (fst (sha256 P (aes_key S)))"
  using assms(1,2)
proof (cases rule: api_work_outcome)
  case (1 check r)
  from api_work_try_non_2xx [OF 1(1) assms(3,4,5)]
  have "r = Inl (HttpError (status res))"
       "S' = S\<lparr>session_user := JStr (fst (sha256 P (aes_key S)))\<rparr>"
    by simp_all
  with 1(2) show ?thesis by simp
qed

theorem non_2xx_keeps_key_witness:
  "api_work2 mock_platform (mock_world 500 []) mock_State ''get_user'' mock_args [] []
     = (Inr (JBool False, Caught (HttpError 500), JNum 999),
        mock_State\<lparr>session_user := JStr ''30313233''\<rparr>, mock_sent key0 ''30313233'')
   \<and> C_fetch (mock_request ''30313233'') \<in> set (mock_sent key0 ''30313233'')
   \<and> fetch (mock_world 500 []) (mock_request ''30313233'') = Inr \<lparr>status = 500, text_body = []\<rparr>
   \<and> \<not> ok \<lparr>status = 500, text_body = []\<rparr>
   \<and> failure_triple (JBool False, Caught (HttpError 500), JNum 999)
   \<and> aes_key (mock_State\<lparr>session_user := JStr ''30313233''\<rparr>) = JStr key0
   \<and> session_user (mock_State\<lparr>session_user := JStr ''30313233''\<rparr>)
        = JStr (fst (sha256 mock_platform (JStr key0)))"
proof -
  have sent: "C_fetch (mock_request ''30313233'') \<in> set (mock_sent key0 ''30313233'')"
    by (simp add: mock_sent_def)
  have bad: "\<not> ok \<lparr>status = 500, text_body = []\<rparr>"
    by (simp add: ok_def)
  from non_2xx_keeps_key [OF disjI2 [OF refl] mock_run_500 sent mock_fetch bad]
  show ?thesis
    using mock_run_500 sent bad by (simp add: mock_fetch mock_State_def)
qed

section \<open>A rejected response (claim C4)\<close>

lemma decryptStr_rejected:
  assumes "key_length_ok (TextEncoder_encode P key)"
      and "importKey P (TextEncoder_encode P key) ForDecrypt = Inr dk"
      and "atob_bytes P iv = Inr ivBytes"
      and "atob_bytes P data = Inr ciphertextBytes"
      and "atob_bytes P tag = Inr tagBytes"
      and "AES_GCM_decrypt P dk ivBytes (ciphertextBytes @ tagBytes) = Inl e"
  shows "decryptStr_try P data iv tag key
           = (Inl e, [C_importKey (TextEncoder_encode P key) ForDecrypt,
                      C_decrypt dk ivBytes (ciphertextBytes @ tagBytes)])
       \<and> decryptStr P data iv tag key
           = (Inr [], [C_importKey (TextEncoder_encode P key) ForDecrypt,
                       C_decrypt dk ivBytes (ciphertextBytes @ tagBytes)])"
  using assms by (simp add: decryptStr_def decryptStr_try_def decrypt_with_def Let_def)

text \<open>
  Claim C4, as the specification words it: a response whose tag or data differs from a
  genuine encryption makes the decryption fail with an authentication error, and the key
  is not rotated. The first half does not hold of \<^verbatim>\<open>Eec.Aes.Gcm.decryptStr\<close>: given the
  ciphertext of a genuine encryption under the current key with another tag, the provider
  rejects it, and \<^verbatim>\<open>decryptStr\<close> returns the empty string; no error leaves it.
\<close>

theorem rejected_tag_returns_empty:
  "AES_GCM_encrypt mock_platform (CryptoKey (mock_key_bytes key0) ForEncrypt)
       (mock_encode (JStr ''000000000000'')) (mock_encode (JStr ''payload 1''))
     = Inr (mock_encode (JStr (''payload 1'' @ key0)))
   \<and> AES_GCM_decrypt mock_platform (CryptoKey (mock_key_bytes key0) ForDecrypt)
       (mock_encode (JStr ''000000000000'')) (mock_encode (JStr (''payload 1'' @ key2)))
     = Inl (Native ''OperationError'')
   \<and> decryptStr mock_platform (JStr ''payload 1'') (JStr ''000000000000'') (JStr key2) (JStr key0)
     = (Inr [], mock_received key0 ''payload 1'' key2)"
  by (simp add: model_defs mock_defs mock_scenario_defs)

text \<open>
  Claim C4, amended. When the provider rejects the tag and data of a response under
  the current key, \<^verbatim>\<open>decryptStr\<close> catches the provider's error and returns the empty
  string; \<^verbatim>\<open>Res.api.work\<close> (either copy) then fails on parsing that empty text as JSON,
  returns a failure array, and \<^verbatim>\<open>S.aes_key\<close> keeps its value from before the call. That
  the provider rejects what differs from a genuine encryption, and that \<^verbatim>\<open>JSON.parse\<close>
  rejects the empty text, are properties of the platform and appear as hypotheses.
\<close>

theorem rejected_response_keeps_key:
  assumes work: "work = api_work1 \<or> work = api_work2"
      and run: "work P W S operate args algorithm message = (out, S', calls)"
      and sent: "C_fetch req \<in> set calls" and res: "fetch W req = Inr res" and ok: "ok res"
      and envelope: "JSON_parse P (text_body res) = Inr result" "get_prop result ''data'' = Inr rd"
        "get_prop rd ''data'' = Inr data" "get_prop rd ''iv'' = Inr iv" "get_prop rd ''tag'' = Inr tag"
      and key: "key_length_ok (TextEncoder_encode P (aes_key S))"
        "importKey P (TextEncoder_encode P (aes_key S)) ForDecrypt = Inr dk"
      and fields: "atob_bytes P iv = Inr ivBytes" "atob_bytes P data = Inr ciphertextBytes"
        "atob_bytes P tag = Inr tagBytes"
      and rejected: "AES_GCM_decrypt P dk ivBytes (ciphertextBytes @ tagBytes) = Inl e"
      and empty: "JSON_parse P [] = Inl e'"
  shows "fst (decryptStr P data iv tag (aes_key S)) = Inr []
       \<and> (\<exists>t. out = Inr t \<and> failure_triple t)
       \<and> aes_key S' = aes_key S"
proof -
  note d = decryptStr_rejected [OF key fields rejected]
  have rd: "read_response P (aes_key S) res
              = (Inl e', [C_importKey (TextEncoder_encode P (aes_key S)) ForDecrypt,
                          C_decrypt dk ivBytes (ciphertextBytes @ tagBytes)])"
    using ok envelope d empty by (simp add: read_response_def)
  from work run show ?thesis
  proof (cases rule: api_work_outcome)
    case (1 check r)
    from api_work_try_unreadable [OF 1(1) sent res rd] 1(2) d show ?thesis
      by simp
  qed
qed

theorem rejected_response_keeps_key_witness:
  "api_work2 mock_platform (mock_world 200 ''tampered 1'') mock_State ''get_user'' mock_args [] []
     = (Inr (JBool False, Caught (Native ''SyntaxError''), JNum 999),
        mock_State\<lparr>session_user := JStr ''30313233''\<rparr>,
        mock_sent key0 ''30313233'' @ mock_received key0 ''payload 1'' key2)
   \<and> C_fetch (mock_request ''30313233'')
        \<in> set (mock_sent key0 ''30313233'' @ mock_received key0 ''payload 1'' key2)
   \<and> fetch (mock_world 200 ''tampered 1'') (mock_request ''30313233'')
        = Inr \<lparr>status = 200, text_body = ''tampered 1''\<rparr>
   \<and> ok \<lparr>status = 200, text_body = ''tampered 1''\<rparr>
   \<and> JSON_parse mock_platform ''tampered 1'' = Inr (envelope ''payload 1'' key2)
   \<and> key_length_ok (TextEncoder_encode mock_platform (JStr key0))
   \<and> AES_GCM_decrypt mock_platform (CryptoKey (mock_key_bytes key0) ForDecrypt)
        (mock_encode (JStr ''000000000000'')) (mock_encode (JStr ''payload 1'') @ mock_encode (JStr key2))
        = Inl (Native ''OperationError'')
   \<and> JSON_parse mock_platform [] = Inl (Native ''SyntaxError'')
   \<and> fst (decryptStr mock_platform (JStr ''payload 1'') (JStr ''000000000000'') (JStr key2) (JStr key0)) = Inr []
   \<and> failure_triple (JBool False, Caught (Native ''SyntaxError''), JNum 999)
   \<and> aes_key (mock_State\<lparr>session_user := JStr ''30313233''\<rparr>) = JStr key0"
proof -
  have sent: "C_fetch (mock_request ''30313233'')
        \<in> set (mock_sent key0 ''30313233'' @ mock_received key0 ''payload 1'' key2)"
    by (simp add: mock_sent_def)
  have ok: "ok \<lparr>status = 200, text_body = ''tampered 1''\<rparr>"
    by (simp add: ok_def)
  have parse: "JSON_parse mock_platform (text_body \<lparr>status = 200, text_body = ''tampered 1''\<rparr>)
                 = Inr (envelope ''payload 1'' key2)"
    by (simp add: mock_platform_def mock_parse_def mock_json_def)
  have f: "get_prop (envelope ''payload 1'' key2) ''data''
             = Inr (JObj [(''data'', JStr ''payload 1''), (''iv'', JStr ''000000000000''), (''tag'', JStr key2)])"
       "get_prop (JObj [(''data'', JStr ''payload 1''), (''iv'', JStr ''000000000000''), (''tag'', JStr key2)]) ''data''
             = Inr (JStr ''payload 1'')"
       "get_prop (JObj [(''data'', JStr ''payload 1''), (''iv'', JStr ''000000000000''), (''tag'', JStr key2)]) ''iv''
             = Inr (JStr ''000000000000'')"
       "get_prop (JObj [(''data'', JStr ''payload 1''), (''iv'', JStr ''000000000000''), (''tag'', JStr key2)]) ''tag''
             = Inr (JStr key2)"
    by (simp_all add: envelope_def)
  have key: "aes_key mock_State = JStr key0"
    by (simp add: mock_State_def)
  have len: "key_length_ok (TextEncoder_encode mock_platform (aes_key mock_State))"
    using mock_key0_length key by simp
  have imp: "importKey mock_platform (TextEncoder_encode mock_platform (aes_key mock_State)) ForDecrypt
               = Inr (CryptoKey (mock_key_bytes key0) ForDecrypt)"
    by (simp add: mock_platform_def key mock_key_bytes_def)
  have a: "atob_bytes mock_platform (JStr ''000000000000'') = Inr (mock_encode (JStr ''000000000000''))"
          "atob_bytes mock_platform (JStr ''payload 1'') = Inr (mock_encode (JStr ''payload 1''))"
          "atob_bytes mock_platform (JStr key2) = Inr (mock_encode (JStr key2))"
    by (simp_all add: mock_platform_def mock_atob_def)
  have rej: "AES_GCM_decrypt mock_platform (CryptoKey (mock_key_bytes key0) ForDecrypt)
        (mock_encode (JStr ''000000000000'')) (mock_encode (JStr ''payload 1'') @ mock_encode (JStr key2))
        = Inl (Native ''OperationError'')"
    by (simp add: mock_defs mock_scenario_defs)
  have empty: "JSON_parse mock_platform [] = Inl (Native ''SyntaxError'')"
    by (simp add: mock_platform_def mock_parse_def mock_json_def)
  from rejected_response_keeps_key [OF disjI2 [OF refl] mock_run_tampered sent mock_fetch ok
         parse f len imp a rej empty]
  show ?thesis
    using mock_run_tampered sent ok parse rej empty mock_key0_length key
    by (simp add: mock_fetch)
qed

section \<open>A non-empty algorithm (claim C6)\<close>

text \<open>
  Claim C6 says that a call with a non-empty \<^verbatim>\<open>algorithm\<close> fails with an
  unsupported-algorithm error and sends nothing. The source's branch for that case is
  commented out, its \<^verbatim>\<open>throw\<close> for an unknown algorithm included, so the call goes on
  with \<^verbatim>\<open>content\<close> undefined. Evaluated on the established state with \<^verbatim>\<open>"gzip"\<close>, for
  any platform and any network: the first two calls the code makes are the digest of
  the key and the \<^verbatim>\<open>fetch\<close> of an envelope whose \<^verbatim>\<open>content\<close> is \<^verbatim>\<open>undefined\<close>; nothing was
  encrypted.
\<close>

theorem algorithm_given_request_sent:
  "take 2 (snd (snd (api_work2 P W mock_State ''get_user'' mock_args ''gzip'' [])))
     = [C_digest SHA256 (TextEncoder_encode P (JStr key0)),
        C_fetch (api_request (JStr (fst (sha256 P (JStr key0))))
          (JSON_stringify P
             (JObj [(''message'', JStr []), (''compression'', JBool True),
                    (''algorithm'', JStr ''gzip''), (''content'', JUndefined)])))]"
proof -
  have chk: "api_check2 mock_State = Inr ()"
    by (simp add: api_check2_def mock_State_def key0_def)
  have dig: "snd (sha256 P (JStr key0)) = [C_digest SHA256 (TextEncoder_encode P (JStr key0))]"
    by (simp add: sha256_def Let_def split: sum.splits)
  have key: "aes_key mock_State = JStr key0"
    by (simp add: mock_State_def)
  show ?thesis
    using chk dig key
    by (simp add: api_work2_def api_work_try_def Let_def split: sum.splits prod.splits)
qed

text \<open>
  With the test double the server answers as to any request, and the call returns like a
  successful one; the body that went out lists no \<^verbatim>\<open>content\<close>.
\<close>

lemma mock_run_gzip:
  "api_work2 mock_platform (mock_world 200 ''response 1'') mock_State ''get_user'' mock_args ''gzip'' []
     = (Inr (JStr ''one'', Value (JStr ''ok''), JNum 0),
        mock_State\<lparr>session_user := JStr ''30313233'', aes_key := JStr key1\<rparr>,
        [C_digest SHA256 (mock_key_bytes key0),
         C_fetch (api_request (JStr ''30313233'') ''message;compression;algorithm;'')]
        @ mock_received key0 ''payload 1'' key0)"
  by code_simp

section \<open>The failure array (claim C7)\<close>

text \<open>
  When the \<^verbatim>\<open>try\<close> block of \<^verbatim>\<open>Res.api.work\<close> throws, the key is the one the call started
  with, and the array returned has \<^verbatim>\<open>false\<close> first and 999 last. Its second element is
  the string \<^verbatim>\<open>"error"\<close> in the first copy and the caught value in the second.
\<close>

lemma api_work1_failure:
  assumes "api_work_try api_check1 P W S operate args algorithm message = (Inl e, S', calls)"
  shows "api_work1 P W S operate args algorithm message
           = (Inr (JBool False, Value (JStr ''error''), JNum 999), S', calls)
       \<and> aes_key S' = aes_key S"
  using assms api_work_try_failure [OF assms] by (simp add: api_work1_def)

lemma api_work2_failure:
  assumes "api_work_try api_check2 P W S operate args algorithm message = (Inl e, S', calls)"
  shows "api_work2 P W S operate args algorithm message
           = (Inr (JBool False, Caught e, JNum 999), S', calls)
       \<and> aes_key S' = aes_key S"
  using assms api_work_try_failure [OF assms] by (simp add: api_work2_def)


section \<open>The session identifier of the next request (claim C1)\<close>



lemma length_cycles: "length (cycles check P S script) = length script"
  by (induction script arbitrary: S) (auto split: prod.splits)









section \<open>The handshake (claims C5 and C10)\<close>

lemma rs_work_try_failure:
  assumes "rs_work_try P W S = (Inl e, S', calls)"
  shows "aes_key S' = aes_key S \<and> session_user S' = session_user S"
  using assms
  by (auto simp: rs_work_try_def Let_def RSA_init_def split: sum.splits prod.splits if_splits)

lemma rs_work_try_exported:
  assumes "rs_work_try P W S = (r, S', calls)"
      and "generateKey W = Inr kp"
      and "getPublicKey_pem P (new_RSA\<lparr>rsa_key := Some kp\<rparr>) = (Inr pem, c)"
  shows "rsa S' = Some (new_RSA\<lparr>rsa_key := Some kp\<rparr>) \<and> pubPem S' = JStr pem"
  using assms
  by (auto simp: rs_work_try_def Let_def RSA_init_def split: sum.splits prod.splits if_splits)

lemma rs_work_try_returned:
  assumes "rs_work_try P W S = (Inr b, S', calls)"
  shows "b \<and> (\<exists>this req res result encryptedKey k c.
            rsa S' = Some this \<and> C_fetch req \<in> set calls \<and> fetch W req = Inr res
          \<and> JSON_parse P (text_body res) = Inr result
          \<and> get_prop result ''data'' = Inr encryptedKey
          \<and> RSA_decrypt P this encryptedKey ''hex'' = (Inr k, c)
          \<and> aes_key S' = JStr k)"
  using assms
  apply (auto simp: rs_work_try_def Let_def RSA_init_def split: sum.splits prod.splits if_splits)
  apply fastforce
  done

lemma mock_pem_export:
  "getPublicKey_pem mock_platform (new_RSA\<lparr>rsa_key := Some \<lparr>publicKey = 1, privateKey = 2\<rparr>\<rparr>)
     = (Inr mock_pem, [C_exportKey 1])"
  by code_simp

lemma mock_generateKey: "generateKey (mock_world st b) = Inr \<lparr>publicKey = 1, privateKey = 2\<rparr>"
  by (simp add: mock_world_def)

lemma mock_short_decrypt:
  "RSA_decrypt mock_platform (new_RSA\<lparr>rsa_key := Some \<lparr>publicKey = 1, privateKey = 2\<rparr>\<rparr>)
       (JStr ''73686f7274'') ''hex''
     = (Inr ''short'', [C_rsa_decrypt 2 (mock_encode (JStr ''short''))])"
  by code_simp

text \<open>
  Claim C5, as the specification words it: the handshake validates that the recovered
  key is 16, 24 or 32 bytes long before installing it, and fails otherwise. The source
  has no such check: when the server's ciphertext decrypts to the five bytes of
  \<^verbatim>\<open>"short"\<close>, \<^verbatim>\<open>Res.rs.work\<close> installs them as \<^verbatim>\<open>S.aes_key\<close> and returns \<^verbatim>\<open>true\<close>.
\<close>

theorem handshake_installs_short_key:
  "\<not> key_length_ok (TextEncoder_encode mock_platform (JStr ''short''))
   \<and> rs_work mock_platform (mock_world 200 ''short key'') new_State
     = (Inr True,
        \<lparr>rsa = Some mock_RSA, aes_key = JStr ''short'', pubPem = JStr mock_pem, session_user = JNull\<rparr>,
        [C_generateKey, C_exportKey 1, C_fetch (rs_request (JStr mock_pem)),
         C_rsa_decrypt 2 (mock_encode (JStr ''short''))])"
  by code_simp

text \<open>
  Claim C5, amended. In every run of the handshake in which the steps up to the
  decryption succeed, the text that \<^verbatim>\<open>RSA.decrypt\<close> recovers from the server's hex
  ciphertext is installed as \<^verbatim>\<open>S.aes_key\<close> as it is, whatever its length, and the
  handshake returns \<^verbatim>\<open>true\<close>. (The length is checked later, in each operation of
  \<^verbatim>\<open>Eec.Aes.Gcm\<close>.)
\<close>

theorem handshake_installs_unchecked:
  assumes gen: "generateKey W = Inr kp"
      and pem: "getPublicKey_pem P (new_RSA\<lparr>rsa_key := Some kp\<rparr>) = (Inr pem, c1)"
      and res: "fetch W (rs_request (JStr pem)) = Inr res" "ok res"
      and body: "JSON_parse P (text_body res) = Inr result"
                "get_prop result ''data'' = Inr encryptedKey"
      and dec: "RSA_decrypt P (new_RSA\<lparr>rsa_key := Some kp\<rparr>) encryptedKey ''hex'' = (Inr k, c2)"
  shows "rs_work P W S
           = (Inr True,
              S\<lparr>rsa := Some (new_RSA\<lparr>rsa_key := Some kp\<rparr>), pubPem := JStr pem, aes_key := JStr k\<rparr>,
              [C_generateKey] @ c1 @ [C_fetch (rs_request (JStr pem))] @ c2)"
  using assms
  by (simp add: rs_work_def rs_work_try_def RSA_init_def Let_def)

theorem handshake_installs_unchecked_witness:
  "generateKey (mock_world 200 ''short key'') = Inr \<lparr>publicKey = 1, privateKey = 2\<rparr>
   \<and> getPublicKey_pem mock_platform (new_RSA\<lparr>rsa_key := Some \<lparr>publicKey = 1, privateKey = 2\<rparr>\<rparr>)
       = (Inr mock_pem, [C_exportKey 1])
   \<and> fetch (mock_world 200 ''short key'') (rs_request (JStr mock_pem))
       = Inr \<lparr>status = 200, text_body = ''short key''\<rparr>
   \<and> ok \<lparr>status = 200, text_body = ''short key''\<rparr>
   \<and> JSON_parse mock_platform ''short key'' = Inr (JObj [(''data'', JStr ''73686f7274'')])
   \<and> RSA_decrypt mock_platform (new_RSA\<lparr>rsa_key := Some \<lparr>publicKey = 1, privateKey = 2\<rparr>\<rparr>)
       (JStr ''73686f7274'') ''hex''
       = (Inr ''short'', [C_rsa_decrypt 2 (mock_encode (JStr ''short''))])
   \<and> length (TextEncoder_encode mock_platform (JStr ''short'')) = 5
   \<and> rs_work mock_platform (mock_world 200 ''short key'') new_State
       = (Inr True,
          new_State\<lparr>rsa := Some (new_RSA\<lparr>rsa_key := Some \<lparr>publicKey = 1, privateKey = 2\<rparr>\<rparr>),
                    pubPem := JStr mock_pem, aes_key := JStr ''short''\<rparr>,
          [C_generateKey] @ [C_exportKey 1] @ [C_fetch (rs_request (JStr mock_pem))]
          @ [C_rsa_decrypt 2 (mock_encode (JStr ''short''))])"
proof -
  have ok: "ok \<lparr>status = 200, text_body = ''short key''\<rparr>"
    by (simp add: ok_def)
  have parse: "JSON_parse mock_platform (text_body \<lparr>status = 200, text_body = ''short key''\<rparr>)
                 = Inr (JObj [(''data'', JStr ''73686f7274'')])"
    by (simp add: mock_platform_def mock_parse_def mock_json_def)
  have data: "get_prop (JObj [(''data'', JStr ''73686f7274'')]) ''data'' = Inr (JStr ''73686f7274'')"
    by simp
  have len: "length (TextEncoder_encode mock_platform (JStr ''short'')) = 5"
    by (simp add: mock_platform_def mock_encode_def)
  from handshake_installs_unchecked [OF mock_generateKey mock_pem_export mock_fetch ok parse data
         mock_short_decrypt, of new_State]
  show ?thesis
    using mock_generateKey mock_pem_export mock_short_decrypt ok parse len
    by (simp add: mock_fetch)
qed

text \<open>
  Claim C10. A handshake that fails after the key pair was generated and exported (at
  the \<^verbatim>\<open>fetch\<close>, the status check, the JSON parsing, the reading of \<^verbatim>\<open>data\<close> or the
  decryption) returns \<^verbatim>\<open>false\<close> without throwing; \<^verbatim>\<open>S.rsa\<close> holds the new key pair and
  \<^verbatim>\<open>S.pubPem\<close> its PEM export, and of the three fields the handshake assigns,
  \<^verbatim>\<open>S.aes_key\<close> alone has its value from before the call. (\<^verbatim>\<open>S.session_user\<close>, which the
  handshake never assigns, has its old value too.)
\<close>

theorem failed_handshake_state:
  assumes fails: "rs_work_try P W S = (Inl e, S', calls)"
      and gen: "generateKey W = Inr kp"
      and pem: "getPublicKey_pem P (new_RSA\<lparr>rsa_key := Some kp\<rparr>) = (Inr pem, c)"
  shows "rs_work P W S = (Inr False, S', calls)
       \<and> rsa S' = Some (new_RSA\<lparr>rsa_key := Some kp\<rparr>)
       \<and> pubPem S' = JStr pem
       \<and> aes_key S' = aes_key S
       \<and> session_user S' = session_user S"
  using fails rs_work_try_failure [OF fails] rs_work_try_exported [OF fails gen pem]
  by (simp add: rs_work_def)

lemma mock_handshake_500:
  "rs_work_try mock_platform (mock_world 500 []) (new_State\<lparr>aes_key := JStr key0\<rparr>)
     = (Inl (HttpError 500),
        \<lparr>rsa = Some mock_RSA, aes_key = JStr key0, pubPem = JStr mock_pem, session_user = JNull\<rparr>,
        [C_generateKey, C_exportKey 1, C_fetch (rs_request (JStr mock_pem))])"
  by code_simp

theorem failed_handshake_state_witness:
  "rs_work_try mock_platform (mock_world 500 []) (new_State\<lparr>aes_key := JStr key0\<rparr>)
     = (Inl (HttpError 500),
        \<lparr>rsa = Some mock_RSA, aes_key = JStr key0, pubPem = JStr mock_pem, session_user = JNull\<rparr>,
        [C_generateKey, C_exportKey 1, C_fetch (rs_request (JStr mock_pem))])
   \<and> generateKey (mock_world 500 []) = Inr \<lparr>publicKey = 1, privateKey = 2\<rparr>
   \<and> getPublicKey_pem mock_platform (new_RSA\<lparr>rsa_key := Some \<lparr>publicKey = 1, privateKey = 2\<rparr>\<rparr>)
       = (Inr mock_pem, [C_exportKey 1])
   \<and> rs_work mock_platform (mock_world 500 []) (new_State\<lparr>aes_key := JStr key0\<rparr>)
       = (Inr False,
          \<lparr>rsa = Some mock_RSA, aes_key = JStr key0, pubPem = JStr mock_pem, session_user = JNull\<rparr>,
          [C_generateKey, C_exportKey 1, C_fetch (rs_request (JStr mock_pem))])
   \<and> rsa (new_State\<lparr>aes_key := JStr key0\<rparr>) = None
   \<and> pubPem (new_State\<lparr>aes_key := JStr key0\<rparr>) = JNull"
  using failed_handshake_state [OF mock_handshake_500 mock_generateKey mock_pem_export]
        mock_handshake_500 mock_generateKey mock_pem_export
  by (simp add: new_State_def)

end
